theory Spec2Isabelle
  imports
    Complex_Main
    "HOL-Library.Log_Nat"
    "HOL-Library.Char_ord"
    "HOL-Library.List_Lexorder"
    "HOL-Library.Multiset"
begin

unbundle bit_operations_syntax

chapter \<open>A proof-of-work ledger: \<^verbatim>\<open>main.py\<close>\<close>

text \<open>
  The ledger engine of \<^verbatim>\<open>main.py\<close> (classes \<^verbatim>\<open>Block\<close> and \<^verbatim>\<open>Blockchain\<close>) as HOL
  functions.  The Flask routes are transport and are not modelled.

  Conventions.
  \<^item> A Python \<^verbatim>\<open>str\<close> is a \<^typ>\<open>string\<close>; a \<^typ>\<open>char\<close> stands for the code point of the
    same number, so the strings covered are those over code points below 256.
  \<^item> A Python \<^verbatim>\<open>int\<close> is an \<^typ>\<open>int\<close>.
  \<^item> A Python \<^verbatim>\<open>float\<close> is the rational number it denotes; every arithmetic operation
    rounds its exact result to the nearest binary64 value, ties to even (\<open>fl\<close> below).
    Infinities and NaN are not values of the model: the arithmetic of the model agrees with
    Python's as long as no result reaches \<open>2\<^sup>1\<^sup>0\<^sup>2\<^sup>4\<close> in magnitude.  The conversion
    \<^verbatim>\<open>float(x)\<close>, which raises \<^verbatim>\<open>OverflowError\<close> there, is modelled with its exception.
  \<^item> The built-in \<^verbatim>\<open>sum\<close> adds floats from left to right in CPython up to 3.11 and with
    Neumaier's compensation from 3.12 on.  The repository names no interpreter, so the
    generation of the interpreter is a parameter of every function that calls \<^verbatim>\<open>sum\<close>.
  \<^item> A raised exception is a value of type \<open>error\<close>; a function that mutates the ledger
    returns the ledger it leaves behind.
  \<^item> The proof-of-work loop has no bound in the source; it is a partial function whose
    value \<open>None\<close> means that the loop never exits.
\<close>

section \<open>The Python runtime the ledger calls\<close>

subsection \<open>Strings and integers\<close>

text \<open>\<^verbatim>\<open>str.isspace\<close> on one code point below 256.\<close>

definition isspace :: "char \<Rightarrow> bool" where
  "isspace c = (let n = (of_char c :: nat)
                in (9 \<le> n \<and> n \<le> 13) \<or> (28 \<le> n \<and> n \<le> 32) \<or> n = 133 \<or> n = 160)"

text \<open>\<^verbatim>\<open>s.strip()\<close>.\<close>

definition strip :: "string \<Rightarrow> string" where
  "strip s = rev (dropWhile isspace (rev (dropWhile isspace s)))"

definition digit_char :: "int \<Rightarrow> char" where
  "digit_char d = ''0123456789abcdef'' ! nat d"

function digits10 :: "int \<Rightarrow> string" where
  "digits10 n = (if n < 10 then [digit_char n] else digits10 (n div 10) @ [digit_char (n mod 10)])"
  by pat_completeness auto
termination
  by (relation "measure nat") auto

text \<open>\<^verbatim>\<open>str(n)\<close> and \<^verbatim>\<open>f"{n}"\<close> for an integer.\<close>

definition str_int :: "int \<Rightarrow> string" where
  "str_int n = (if n < 0 then CHR ''-'' # digits10 (- n) else digits10 n)"

text \<open>\<^verbatim>\<open>"%0kd" % n\<close> for \<open>n \<ge> 0\<close>.\<close>

definition zero_pad :: "nat \<Rightarrow> int \<Rightarrow> string" where
  "zero_pad k n = (let s = digits10 n in replicate (k - length s) CHR ''0'' @ s)"

text \<open>\<^verbatim>\<open>", ".join(xs)\<close>.\<close>

fun join_comma :: "string list \<Rightarrow> string" where
  "join_comma [] = []"
| "join_comma [x] = x"
| "join_comma (x # y # r) = x @ '', '' @ join_comma (y # r)"

text \<open>\<^verbatim>\<open>xs[:n]\<close>: a negative bound counts from the end.\<close>

definition slice_to :: "int \<Rightarrow> 'a list \<Rightarrow> 'a list" where
  "slice_to n xs = (if 0 \<le> n then take (nat n) xs else take (length xs - nat (- n)) xs)"

subsection \<open>Floats\<close>

type_synonym pyfloat = rat

definition round_half_even :: "rat \<Rightarrow> int" where
  "round_half_even x =
     (let f = \<lfloor>x\<rfloor>; d = x - of_int f
      in if d < 1 / 2 then f else if 1 / 2 < d then f + 1 else if even f then f else f + 1)"

text \<open>\<open>\<lfloor>log\<^sub>2 x\<rfloor>\<close> for \<open>x > 0\<close>, from the bit lengths of numerator and denominator.\<close>

definition ilog2 :: "rat \<Rightarrow> int" where
  "ilog2 x = (let e = bitlen (fst (quotient_of x)) - bitlen (snd (quotient_of x))
              in if power_int 2 e \<le> x then e else e - 1)"

text \<open>
  Rounding to binary64: 53 significant bits, exponent at least \<open>-1022\<close> (so that the
  subnormal numbers are multiples of \<open>2\<^sup>-\<^sup>1\<^sup>0\<^sup>7\<^sup>4\<close>), round to nearest, ties to even.
\<close>

definition fl :: "rat \<Rightarrow> pyfloat" where
  "fl x = (if x = 0 then 0
           else let q = power_int 2 (max (ilog2 \<bar>x\<bar>) (- 1022) - 52)
                in of_int (round_half_even (x / q)) * q)"

definition fadd :: "pyfloat \<Rightarrow> pyfloat \<Rightarrow> pyfloat" where
  "fadd x y = fl (x + y)"

definition fsub :: "pyfloat \<Rightarrow> pyfloat \<Rightarrow> pyfloat" where
  "fsub x y = fl (x - y)"

text \<open>
  \<^verbatim>\<open>sum(xs)\<close> over floats.  The accumulator starts at the integer 0.  Up to CPython 3.11 each
  item is added to it in turn.  From CPython 3.12 on, the first item added to 0 starts a
  float sum \<open>s\<close> with a compensation \<open>c = 0\<close>; each further item \<open>x\<close> gives \<open>t = s + x\<close>,
  adds \<open>(s - t) + x\<close> to \<open>c\<close> when \<open>|s| \<ge> |x|\<close> and \<open>(x - t) + s\<close> otherwise, and makes \<open>t\<close>
  the sum; at the end \<open>c\<close> is added to the sum unless it is zero.
\<close>

datatype cpython = Until311 | From312

fun neumaier :: "pyfloat \<Rightarrow> pyfloat \<Rightarrow> pyfloat list \<Rightarrow> pyfloat" where
  "neumaier s c [] = (if c \<noteq> 0 then fadd s c else s)"
| "neumaier s c (x # xs) =
     (let t = fadd s x
      in neumaier t (fadd c (if \<bar>x\<bar> \<le> \<bar>s\<bar> then fadd (fsub s t) x else fadd (fsub x t) s)) xs)"

fun py_sum :: "cpython \<Rightarrow> pyfloat list \<Rightarrow> pyfloat" where
  "py_sum Until311 xs = foldl fadd 0 xs"
| "py_sum From312 [] = 0"
| "py_sum From312 (x # xs) = neumaier (fadd 0 x) 0 xs"

text \<open>
  \<^verbatim>\<open>float(x)\<close> for an \<^verbatim>\<open>int\<close> or a \<^verbatim>\<open>float\<close> \<open>x\<close>: the nearest float, and \<^verbatim>\<open>OverflowError\<close> when
  that would be \<open>2\<^sup>1\<^sup>0\<^sup>2\<^sup>4\<close> or more in magnitude.
\<close>

definition float_overflows :: "rat \<Rightarrow> bool" where
  "float_overflows x = (2 ^ 1024 \<le> \<bar>fl x\<bar>)"

text \<open>The literal \<^verbatim>\<open>1e-9\<close>.\<close>

definition eps :: pyfloat where
  "eps = fl (1 / 1000000000)"

text \<open>
  \<^verbatim>\<open>repr(x)\<close>, which \<^verbatim>\<open>json.dumps\<close> writes for a float: the shortest decimal digit string
  that rounds back to \<open>x\<close> (the closest to \<open>x\<close> among the shortest), in positional
  notation when the decimal point lies in \<open>(-4, 16]\<close> and in exponent notation otherwise.
\<close>

text \<open>\<open>\<lfloor>log\<^sub>1\<^sub>0 x\<rfloor>\<close> for \<open>x > 0\<close> in the binary64 range: an estimate from \<open>ilog2\<close>, corrected.\<close>

definition ilog10 :: "rat \<Rightarrow> int" where
  "ilog10 x = (let k0 = (ilog2 x * 30103) div 100000;
                   k1 = (if power_int 10 (k0 + 1) \<le> x then k0 + 1 else k0)
               in if x < power_int 10 k1 then k1 - 1 else k1)"

text \<open>The \<open>n\<close>-digit decimals next to \<open>x\<close>; the nearer one first.\<close>

definition digits_at :: "nat \<Rightarrow> rat \<Rightarrow> (int \<times> int) option" where
  "digits_at n x =
     (let s = ilog10 x + 1 - int n;
          y = x / power_int 10 s;
          near = round_half_even y;
          far = (if near = \<lfloor>y\<rfloor> then near + 1 else near - 1)
      in if fl (of_int near * power_int 10 s) = x then Some (near, s)
         else if fl (of_int far * power_int 10 s) = x then Some (far, s)
         else None)"

fun shortest_digits :: "nat \<Rightarrow> nat \<Rightarrow> rat \<Rightarrow> int \<times> int" where
  "shortest_digits 0 n x = (round_half_even (x / power_int 10 (ilog10 x + 1 - int n)), ilog10 x + 1 - int n)"
| "shortest_digits (Suc fuel) n x =
     (case digits_at n x of Some r \<Rightarrow> r | None \<Rightarrow> shortest_digits fuel (Suc n) x)"

definition strip_zeros :: "string \<Rightarrow> string" where
  "strip_zeros s = rev (dropWhile (\<lambda>c. c = CHR ''0'') (rev s))"

definition repr_pos :: "rat \<Rightarrow> string" where
  "repr_pos x =
     (let r = shortest_digits 16 1 x;
          ds = digits10 (fst r);
          decpt = int (length ds) + snd r;
          digs = strip_zeros ds;
          n = int (length digs)
      in if - 4 < decpt \<and> decpt \<le> 16 then
           (if decpt \<le> 0 then ''0.'' @ replicate (nat (- decpt)) CHR ''0'' @ digs
            else if n \<le> decpt then digs @ replicate (nat (decpt - n)) CHR ''0'' @ ''.0''
            else take (nat decpt) digs @ ''.'' @ drop (nat decpt) digs)
         else
           take 1 digs @ (if 1 < n then ''.'' @ drop 1 digs else [])
           @ ''e'' @ (if decpt - 1 < 0 then ''-'' else ''+'') @ zero_pad 2 \<bar>decpt - 1\<bar>)"

definition float_repr :: "pyfloat \<Rightarrow> string" where
  "float_repr x = (if x = 0 then ''0.0'' else if x < 0 then CHR ''-'' # repr_pos (- x) else repr_pos x)"

subsection \<open>\<^verbatim>\<open>datetime\<close>\<close>

text \<open>
  A timezone-aware \<^verbatim>\<open>datetime\<close>, as the ledger creates them (\<^verbatim>\<open>timezone.utc\<close>) and as
  \<^verbatim>\<open>fromisoformat\<close> reads them from a peer's block record: the calendar fields and the UTC
  offset in seconds.
\<close>

record datetime =
  year :: int
  month :: int
  day :: int
  hour :: int
  minute :: int
  second :: int
  microsecond :: int
  utcoffset :: int

definition format_offset :: "int \<Rightarrow> string" where
  "format_offset off =
     (let a = \<bar>off\<bar>; hh = a div 3600; mm = (a mod 3600) div 60; ss = a mod 60
      in (if off < 0 then ''-'' else ''+'') @ zero_pad 2 hh @ '':'' @ zero_pad 2 mm
         @ (if ss \<noteq> 0 then '':'' @ zero_pad 2 ss else []))"

text \<open>\<^verbatim>\<open>dt.isoformat()\<close>.\<close>

definition isoformat :: "datetime \<Rightarrow> string" where
  "isoformat dt =
     zero_pad 4 (year dt) @ ''-'' @ zero_pad 2 (month dt) @ ''-'' @ zero_pad 2 (day dt) @ ''T''
     @ zero_pad 2 (hour dt) @ '':'' @ zero_pad 2 (minute dt) @ '':'' @ zero_pad 2 (second dt)
     @ (if microsecond dt \<noteq> 0 then ''.'' @ zero_pad 6 (microsecond dt) else [])
     @ format_offset (utcoffset dt)"

definition is_leap :: "int \<Rightarrow> bool" where
  "is_leap y = (y mod 4 = 0 \<and> (y mod 100 \<noteq> 0 \<or> y mod 400 = 0))"

definition days_before_year :: "int \<Rightarrow> int" where
  "days_before_year y = (y - 1) * 365 + (y - 1) div 4 - (y - 1) div 100 + (y - 1) div 400"

definition days_before_month :: "int \<Rightarrow> int \<Rightarrow> int" where
  "days_before_month y m =
     [0, 31, 59, 90, 120, 151, 181, 212, 243, 273, 304, 334] ! nat (m - 1)
     + (if 2 < m \<and> is_leap y then 1 else 0)"

text \<open>Microseconds since the start of year 1, in UTC.\<close>

definition utc_micros :: "datetime \<Rightarrow> int" where
  "utc_micros dt =
     (((days_before_year (year dt) + days_before_month (year dt) (month dt) + day dt) * 24 + hour dt) * 3600
        + minute dt * 60 + second dt - utcoffset dt) * 1000000 + microsecond dt"

text \<open>\<^verbatim>\<open>a <= b\<close> on aware datetimes compares the instants.\<close>

definition dt_le :: "datetime \<Rightarrow> datetime \<Rightarrow> bool" where
  "dt_le a b = (utc_micros a \<le> utc_micros b)"

subsection \<open>\<^verbatim>\<open>json.dumps(..., ensure_ascii=False, sort_keys=True)\<close>\<close>

datatype jvalue = JStr string | JFloat pyfloat

definition json_escape :: "char \<Rightarrow> string" where
  "json_escape c =
     (let n = (of_char c :: int)
      in if c = CHR ''\"'' then [CHR 0x5C, CHR ''\"'']
         else if n = 92 then [CHR 0x5C, CHR 0x5C]
         else if n = 8 then [CHR 0x5C, CHR ''b'']
         else if n = 12 then [CHR 0x5C, CHR ''f'']
         else if n = 10 then [CHR 0x5C, CHR ''n'']
         else if n = 13 then [CHR 0x5C, CHR ''r'']
         else if n = 9 then [CHR 0x5C, CHR ''t'']
         else if n < 32 then [CHR 0x5C, CHR ''u'', CHR ''0'', CHR ''0'', digit_char (n div 16), digit_char (n mod 16)]
         else [c])"

definition json_string :: "string \<Rightarrow> string" where
  "json_string s = [CHR ''\"''] @ concat (map json_escape s) @ [CHR ''\"'']"

fun json_value :: "jvalue \<Rightarrow> string" where
  "json_value (JStr s) = json_string s"
| "json_value (JFloat x) = float_repr x"

text \<open>A \<^verbatim>\<open>dict\<close> is the list of its items in insertion order; \<^verbatim>\<open>sort_keys\<close> sorts them by key.\<close>

definition json_dict :: "(string \<times> jvalue) list \<Rightarrow> string" where
  "json_dict kvs =
     ''{'' @ join_comma (map (\<lambda>(k, v). json_string k @ '': '' @ json_value v) (sort_key fst kvs)) @ ''}''"

definition json_list :: "(string \<times> jvalue) list list \<Rightarrow> string" where
  "json_list ds = ''['' @ join_comma (map json_dict ds) @ '']''"

subsection \<open>\<^verbatim>\<open>hashlib.sha256(s.encode()).hexdigest()\<close>\<close>

text \<open>\<^verbatim>\<open>s.encode()\<close>: UTF-8, one or two bytes for a code point below 256.\<close>

definition utf8 :: "string \<Rightarrow> int list" where
  "utf8 s = concat (map (\<lambda>c. let n = (of_char c :: int)
                              in if n < 128 then [n] else [192 + n div 64, 128 + n mod 64]) s)"

text \<open>SHA-256 (FIPS 180-4) on 32-bit words held as integers in \<open>[0, 2\<^sup>3\<^sup>2)\<close>.\<close>

definition add32 :: "int \<Rightarrow> int \<Rightarrow> int" where
  "add32 x y = take_bit 32 (x + y)"

definition rotr32 :: "nat \<Rightarrow> int \<Rightarrow> int" where
  "rotr32 n x = drop_bit n x OR push_bit (32 - n) (take_bit n x)"

definition ch32 :: "int \<Rightarrow> int \<Rightarrow> int \<Rightarrow> int" where
  "ch32 e f g = (e AND f) XOR ((4294967295 - e) AND g)"

definition maj32 :: "int \<Rightarrow> int \<Rightarrow> int \<Rightarrow> int" where
  "maj32 a b c = (a AND b) XOR (a AND c) XOR (b AND c)"

definition bsig0 :: "int \<Rightarrow> int" where
  "bsig0 x = rotr32 2 x XOR rotr32 13 x XOR rotr32 22 x"

definition bsig1 :: "int \<Rightarrow> int" where
  "bsig1 x = rotr32 6 x XOR rotr32 11 x XOR rotr32 25 x"

definition ssig0 :: "int \<Rightarrow> int" where
  "ssig0 x = rotr32 7 x XOR rotr32 18 x XOR drop_bit 3 x"

definition ssig1 :: "int \<Rightarrow> int" where
  "ssig1 x = rotr32 17 x XOR rotr32 19 x XOR drop_bit 10 x"

definition round_constants :: "int list" where
  "round_constants =
    [1116352408, 1899447441, 3049323471, 3921009573, 961987163, 1508970993, 2453635748,
     2870763221, 3624381080, 310598401, 607225278, 1426881987, 1925078388, 2162078206,
     2614888103, 3248222580, 3835390401, 4022224774, 264347078, 604807628, 770255983,
     1249150122, 1555081692, 1996064986, 2554220882, 2821834349, 2952996808, 3210313671,
     3336571891, 3584528711, 113926993, 338241895, 666307205, 773529912, 1294757372,
     1396182291, 1695183700, 1986661051, 2177026350, 2456956037, 2730485921, 2820302411,
     3259730800, 3345764771, 3516065817, 3600352804, 4094571909, 275423344, 430227734,
     506948616, 659060556, 883997877, 958139571, 1322822218, 1537002063, 1747873779,
     1955562222, 2024104815, 2227730452, 2361852424, 2428436474, 2756734187, 3204031479,
     3329325298]"

text \<open>The message schedule; \<open>ws\<close> holds the words made so far, the newest first.\<close>

fun schedule :: "nat \<Rightarrow> int list \<Rightarrow> int list" where
  "schedule 0 ws = rev ws"
| "schedule (Suc n) ws =
     schedule n (add32 (add32 (ssig1 (ws ! 1)) (ws ! 6)) (add32 (ssig0 (ws ! 14)) (ws ! 15)) # ws)"

type_synonym sha_state = "int \<times> int \<times> int \<times> int \<times> int \<times> int \<times> int \<times> int"

definition sha_step :: "int \<Rightarrow> int \<Rightarrow> sha_state \<Rightarrow> sha_state" where
  "sha_step t1 t2 s =
     (case s of (a, b, c, d, e, f, g, h) \<Rightarrow> (add32 t1 t2, a, b, c, add32 d t1, e, f, g))"

definition sha_round :: "sha_state \<Rightarrow> int \<times> int \<Rightarrow> sha_state" where
  "sha_round s kw =
     (case s of (a, b, c, d, e, f, g, h) \<Rightarrow>
        sha_step (add32 (add32 (add32 h (bsig1 e)) (add32 (ch32 e f g) (fst kw))) (snd kw))
                 (add32 (bsig0 a) (maj32 a b c)) s)"

definition add_state :: "sha_state \<Rightarrow> sha_state \<Rightarrow> sha_state" where
  "add_state s t =
     (case s of (a, b, c, d, e, f, g, h) \<Rightarrow>
      case t of (a', b', c', d', e', f', g', h') \<Rightarrow>
        (add32 a a', add32 b b', add32 c c', add32 d d', add32 e e', add32 f f', add32 g g', add32 h h'))"

definition compress :: "sha_state \<Rightarrow> int list \<Rightarrow> sha_state" where
  "compress hs blk = add_state hs (foldl sha_round hs (zip round_constants (schedule 48 (rev blk))))"

definition initial_hash :: sha_state where
  "initial_hash =
     (1779033703, 3144134277, 1013904242, 2773480762, 1359893119, 2600822924, 528734635, 1541459225)"

fun be_words :: "int list \<Rightarrow> int list" where
  "be_words (a # b # c # d # r) = (((a * 256 + b) * 256 + c) * 256 + d) # be_words r"
| "be_words _ = []"

fun be_bytes :: "nat \<Rightarrow> int \<Rightarrow> int list" where
  "be_bytes 0 x = []"
| "be_bytes (Suc n) x = be_bytes n (x div 256) @ [x mod 256]"

definition pad :: "int list \<Rightarrow> int list" where
  "pad bs = bs @ [128] @ replicate ((119 - length bs mod 64) mod 64) 0 @ be_bytes 8 (8 * int (length bs))"

fun chunks :: "nat \<Rightarrow> int list \<Rightarrow> int list list" where
  "chunks 0 ws = []"
| "chunks (Suc n) ws = take 16 ws # chunks n (drop 16 ws)"

definition sha256_words :: "int list \<Rightarrow> sha_state" where
  "sha256_words bs = (let p = pad bs in foldl compress initial_hash (chunks (length p div 64) (be_words p)))"

definition hex32 :: "int \<Rightarrow> string" where
  "hex32 w = map (\<lambda>i. digit_char (drop_bit (4 * i) w mod 16)) [7, 6, 5, 4, 3, 2, 1, 0]"

definition sha256_hex :: "int list \<Rightarrow> string" where
  "sha256_hex bs =
     (case sha256_words bs of (a, b, c, d, e, f, g, h) \<Rightarrow> concat (map hex32 [a, b, c, d, e, f, g, h]))"

section \<open>Class \<^verbatim>\<open>Block\<close>\<close>

text \<open>
  A transaction is a dict with the keys \<^verbatim>\<open>from\<close>, \<^verbatim>\<open>to\<close> and \<^verbatim>\<open>amount\<close>; the amount is a
  float (\<^verbatim>\<open>add_transaction\<close> stores \<^verbatim>\<open>float(tx["amount"])\<close>, the genesis allocation and the
  mining reward are float literals).
\<close>

record tx =
  tx_from :: string
  tx_to :: string
  tx_amount :: pyfloat

text \<open>The dict of a transaction, its items in the order in which the source writes them.\<close>

definition tx_dict :: "tx \<Rightarrow> (string \<times> jvalue) list" where
  "tx_dict t = [(''from'', JStr (tx_from t)), (''to'', JStr (tx_to t)), (''amount'', JFloat (tx_amount t))]"

record block =
  index :: int
  previous_hash :: string
  timestamp :: datetime
  transactions :: "tx list"
  nonce :: int
  hash :: string

text \<open>The f-string \<^verbatim>\<open>block_string\<close> of \<^verbatim>\<open>calculate_hash\<close>.\<close>

definition block_string :: "block \<Rightarrow> string" where
  "block_string b =
     (let tx_str = json_list (map tx_dict (transactions b));
          ts_str = isoformat (timestamp b)
      in str_int (index b) @ previous_hash b @ ts_str @ tx_str @ str_int (nonce b))"

definition calculate_hash :: "block \<Rightarrow> string" where
  "calculate_hash b = sha256_hex (utf8 (block_string b))"

text \<open>
  \<^verbatim>\<open>Block(index, previous_hash, transactions, timestamp)\<close>.  The last argument is the value of
  \<^verbatim>\<open>timestamp or datetime.now(timezone.utc)\<close>: the timestamp given, or else the clock's reading.
\<close>

definition Block_init :: "int \<Rightarrow> string \<Rightarrow> tx list \<Rightarrow> datetime \<Rightarrow> block" where
  "Block_init i ph txs ts =
     (let self = \<lparr>index = i, previous_hash = ph, timestamp = ts, transactions = txs, nonce = 0, hash = []\<rparr>
      in self\<lparr>hash := calculate_hash self\<rparr>)"

text \<open>One turn of the loop of \<^verbatim>\<open>Block.mine_block\<close>.\<close>

definition next_nonce :: "block \<Rightarrow> block" where
  "next_nonce b = (let b' = b\<lparr>nonce := nonce b + 1\<rparr> in b'\<lparr>hash := calculate_hash b'\<rparr>)"

text \<open>\<^verbatim>\<open>Block.mine_block(difficulty)\<close>; the result is the block as the loop leaves it.\<close>

partial_function (option) Block_mine_block :: "int \<Rightarrow> block \<Rightarrow> block option" where
  "Block_mine_block difficulty b =
     (if slice_to difficulty (hash b) \<noteq> replicate (nat difficulty) CHR ''0''
      then Block_mine_block difficulty (next_nonce b)
      else Some b)"

text \<open>
  \<^verbatim>\<open>Block.from_dict(data)\<close>.  The record read from a peer has an index, a previous hash and a
  timestamp (here as \<^verbatim>\<open>fromisoformat\<close> has parsed it); transactions, nonce and hash may be
  absent.  The block is constructed, then nonce and hash are overwritten: the hash with the
  one given, which nothing compares with the block's content.
\<close>

record block_data =
  d_index :: int
  d_previous_hash :: string
  d_timestamp :: datetime
  d_transactions :: "tx list option"
  d_nonce :: "int option"
  d_hash :: "string option"

definition from_dict :: "block_data \<Rightarrow> block" where
  "from_dict d =
     (let b0 = Block_init (d_index d) (d_previous_hash d)
                 (case d_transactions d of None \<Rightarrow> [] | Some txs \<Rightarrow> txs) (d_timestamp d);
          b1 = b0\<lparr>nonce := (case d_nonce d of None \<Rightarrow> 0 | Some n \<Rightarrow> n)\<rparr>
      in b1\<lparr>hash := (case d_hash d of None \<Rightarrow> calculate_hash b1 | Some h \<Rightarrow> h)\<rparr>)"

section \<open>Class \<^verbatim>\<open>Blockchain\<close>\<close>

record blockchain =
  difficulty :: int
  mining_reward :: pyfloat
  block_capacity :: int
  chain :: "block list"
  mempool :: "tx list"
  nodes :: "string set"

text \<open>
  The exceptions the ledger raises.  All but \<open>IndexError\<close> and \<open>OverflowError\<close> are
  \<^verbatim>\<open>ValueError\<close>s, told apart by their message: a missing field (with its name), blank
  addresses, a non-positive amount, insufficient funds, a blank miner address, a blank node
  address.
\<close>

datatype error =
    MissingField string
  | EmptyAddress
  | NonPositiveAmount
  | InsufficientFunds
  | EmptyMinerAddress
  | EmptyNodeAddress
  | IndexError
  | OverflowError

text \<open>The specification's class \<open>InvalidInput\<close> of malformed requests.\<close>

fun invalid_input :: "error \<Rightarrow> bool" where
  "invalid_input (MissingField f) = True"
| "invalid_input EmptyAddress = True"
| "invalid_input NonPositiveAmount = True"
| "invalid_input EmptyMinerAddress = True"
| "invalid_input EmptyNodeAddress = True"
| "invalid_input InsufficientFunds = False"
| "invalid_input IndexError = False"
| "invalid_input OverflowError = False"

definition create_genesis_block :: block where
  "create_genesis_block =
     (let fixed_ts = \<lparr>year = 2025, month = 1, day = 1, hour = 0, minute = 0, second = 0,
                       microsecond = 0, utcoffset = 0\<rparr>;
          genesis_tx = \<lparr>tx_from = ''SYSTEM'', tx_to = ''genesis'', tx_amount = 5000\<rparr>
      in Block_init 0 ''0'' [genesis_tx] fixed_ts)"

text \<open>\<^verbatim>\<open>Blockchain(difficulty, mining_reward, block_capacity)\<close>, and the defaults.\<close>

definition Blockchain_init :: "int \<Rightarrow> pyfloat \<Rightarrow> int \<Rightarrow> blockchain" where
  "Blockchain_init d r c =
     \<lparr>difficulty = d, mining_reward = r, block_capacity = c, chain = [create_genesis_block],
      mempool = [], nodes = {}\<rparr>"

definition fresh :: blockchain where
  "fresh = Blockchain_init 3 50 100"

definition register_node :: "blockchain \<Rightarrow> string \<Rightarrow> (error + unit) \<times> blockchain" where
  "register_node self address =
     (if strip address = [] then (Inl EmptyNodeAddress, self)
      else (Inr (), self\<lparr>nodes := insert address (nodes self)\<rparr>))"

definition get_latest_block :: "blockchain \<Rightarrow> error + block" where
  "get_latest_block self = (if chain self = [] then Inl IndexError else Inr (last (chain self)))"

text \<open>The body of the inner loop of \<^verbatim>\<open>get_balance\<close>.\<close>

definition balance_step :: "string \<Rightarrow> pyfloat \<Rightarrow> tx \<Rightarrow> pyfloat" where
  "balance_step address balance t =
     (let balance1 = (if tx_from t = address \<and> tx_from t \<noteq> ''SYSTEM''
                      then fsub balance (tx_amount t) else balance)
      in if tx_to t = address then fadd balance1 (tx_amount t) else balance1)"

definition get_balance :: "blockchain \<Rightarrow> string \<Rightarrow> pyfloat" where
  "get_balance self address =
     foldl (\<lambda>balance b. foldl (balance_step address) balance (transactions b)) 0 (chain self)"

text \<open>
  The argument of \<^verbatim>\<open>add_transaction\<close>: a dict in which each of the three keys may be absent.
  The amount is an \<^verbatim>\<open>int\<close> or a finite \<^verbatim>\<open>float\<close>; \<^verbatim>\<open>float(tx["amount"])\<close> rounds it to a float
  or raises \<^verbatim>\<open>OverflowError\<close>, before any address is looked at.
\<close>

record tx_input =
  in_from :: "string option"
  in_to :: "string option"
  in_amount :: "rat option"

definition pending_out :: "cpython \<Rightarrow> blockchain \<Rightarrow> string \<Rightarrow> pyfloat" where
  "pending_out py self sender =
     py_sum py (map tx_amount (filter (\<lambda>t. tx_from t = sender) (mempool self)))"

definition add_transaction ::
    "cpython \<Rightarrow> blockchain \<Rightarrow> tx_input \<Rightarrow> (error + unit) \<times> blockchain" where
  "add_transaction py self t =
     (case in_from t of None \<Rightarrow> (Inl (MissingField ''from''), self) | Some sender \<Rightarrow>
     (case in_to t of None \<Rightarrow> (Inl (MissingField ''to''), self) | Some recipient \<Rightarrow>
     (case in_amount t of None \<Rightarrow> (Inl (MissingField ''amount''), self) | Some a \<Rightarrow>
        if float_overflows a then (Inl OverflowError, self)
        else
          let amount = fl a in
          if strip sender = [] \<or> strip recipient = [] then (Inl EmptyAddress, self)
          else if amount \<le> 0 then (Inl NonPositiveAmount, self)
          else if sender \<noteq> ''SYSTEM''
                  \<and> fsub (get_balance self sender) (pending_out py self sender) < fsub amount eps
          then (Inl InsufficientFunds, self)
          else (Inr (), self\<lparr>mempool := mempool self @
                  [\<lparr>tx_from = sender, tx_to = recipient, tx_amount = amount\<rparr>]\<rparr>))))"

text \<open>\<^verbatim>\<open>json.dumps(tx, sort_keys=True, ensure_ascii=False)\<close> for one transaction.\<close>

definition dumps :: "tx \<Rightarrow> string" where
  "dumps t = json_dict (tx_dict t)"

text \<open>
  \<^verbatim>\<open>Blockchain.mine_block(miner_address)\<close>; \<open>now\<close> is what the clock reads when the new block
  is constructed.  The result is \<open>None\<close> when the proof-of-work loop does not end.
\<close>

definition Blockchain_mine_block ::
    "datetime \<Rightarrow> blockchain \<Rightarrow> string \<Rightarrow> ((error + block) \<times> blockchain) option" where
  "Blockchain_mine_block now self miner_address =
     (if strip miner_address = [] then Some (Inl EmptyMinerAddress, self)
      else
        let reward_tx = \<lparr>tx_from = ''SYSTEM'', tx_to = miner_address, tx_amount = mining_reward self\<rparr>;
            txs = slice_to (block_capacity self) (mempool self) @ [reward_tx]
        in case get_latest_block self of
             Inl e \<Rightarrow> Some (Inl e, self)
           | Inr latest \<Rightarrow>
               (case Block_mine_block (difficulty self)
                       (Block_init (int (length (chain self))) (hash latest) txs now) of
                  None \<Rightarrow> None
                | Some new_block \<Rightarrow>
                    let included = set (map dumps (filter (\<lambda>t. tx_from t \<noteq> ''SYSTEM'') txs))
                    in Some (Inr new_block,
                             self\<lparr>chain := chain self @ [new_block],
                                  mempool := filter (\<lambda>t. dumps t \<notin> included) (mempool self)\<rparr>)))"

text \<open>\<^verbatim>\<open>balances.get(k, 0.0)\<close>.\<close>

definition get0 :: "(string \<rightharpoonup> pyfloat) \<Rightarrow> string \<Rightarrow> pyfloat" where
  "get0 balances k = (case balances k of None \<Rightarrow> 0 | Some v \<Rightarrow> v)"

text \<open>
  The body of the transaction loop of \<^verbatim>\<open>is_chain_valid\<close>: \<open>None\<close> stands for
  \<^verbatim>\<open>return False\<close>, otherwise the balances are the updated dict.  The amount of a stored
  transaction is a float, which \<^verbatim>\<open>float(...)\<close> returns as it is.
\<close>

definition check_tx :: "(string \<rightharpoonup> pyfloat) \<Rightarrow> tx \<Rightarrow> (string \<rightharpoonup> pyfloat) option" where
  "check_tx balances t =
     (let sender = tx_from t; recipient = tx_to t; amount = tx_amount t
      in if amount < 0 then None
         else if sender \<noteq> ''SYSTEM'' then
           (if get0 balances sender < fsub amount eps then None
            else let balances1 = balances(sender \<mapsto> fsub (get0 balances sender) amount)
                 in Some (balances1(recipient \<mapsto> fadd (get0 balances1 recipient) amount)))
         else Some (balances(recipient \<mapsto> fadd (get0 balances recipient) amount)))"

fun check_txs :: "(string \<rightharpoonup> pyfloat) \<Rightarrow> tx list \<Rightarrow> (string \<rightharpoonup> pyfloat) option" where
  "check_txs balances [] = Some balances"
| "check_txs balances (t # ts) =
     (case check_tx balances t of None \<Rightarrow> None | Some balances' \<Rightarrow> check_txs balances' ts)"

text \<open>
  The block loop of \<^verbatim>\<open>is_chain_valid\<close> from position \<open>i\<close> on; \<open>prev\<close> is \<^verbatim>\<open>chain[i-1]\<close>, which
  exists exactly when \<open>i > 0\<close>.
\<close>

fun check_blocks :: "nat \<Rightarrow> block option \<Rightarrow> (string \<rightharpoonup> pyfloat) \<Rightarrow> block list \<Rightarrow> bool" where
  "check_blocks i prev balances [] = True"
| "check_blocks i prev balances (b # rest) =
     (if hash b \<noteq> calculate_hash b then False
      else if (case prev of None \<Rightarrow> False
               | Some p \<Rightarrow> previous_hash b \<noteq> hash p \<or> index b \<noteq> int i
                            \<or> dt_le (timestamp b) (timestamp p))
      then False
      else case check_txs balances (transactions b) of
             None \<Rightarrow> False
           | Some balances' \<Rightarrow> check_blocks (Suc i) (Some b) balances' rest)"

text \<open>
  \<^verbatim>\<open>is_chain_valid(chain=None)\<close>: \<^verbatim>\<open>chain or self.chain\<close> is the ledger's own chain when no
  chain is given and also when the empty list is given.
\<close>

definition is_chain_valid :: "blockchain \<Rightarrow> block list option \<Rightarrow> bool" where
  "is_chain_valid self given =
     (let chain = (case given of None \<Rightarrow> chain self | Some [] \<Rightarrow> chain self | Some c \<Rightarrow> c)
      in check_blocks 0 None Map.empty chain)"

definition replace_chain :: "blockchain \<Rightarrow> block list \<Rightarrow> bool \<times> blockchain" where
  "replace_chain self new_chain =
     (if length (chain self) < length new_chain \<and> is_chain_valid self (Some new_chain)
      then (True, self\<lparr>chain := new_chain\<rparr>)
      else (False, self))"

section \<open>Notions the properties are stated with\<close>

text \<open>
  The transactions of a chain in order, the addresses that appear in them, the amount issued
  by \<^verbatim>\<open>SYSTEM\<close>, the balance of an address in exact arithmetic, and the sum of the absolute
  amounts of a list of transactions.
\<close>

definition all_txs :: "block list \<Rightarrow> tx list" where
  "all_txs c = concat (map transactions c)"

definition addresses :: "block list \<Rightarrow> string set" where
  "addresses c = (\<Union>t \<in> set (all_txs c). {tx_from t, tx_to t})"

definition issued :: "block list \<Rightarrow> rat" where
  "issued c = (\<Sum>t \<leftarrow> all_txs c. if tx_from t = ''SYSTEM'' then tx_amount t else 0)"

definition exact_balance :: "string \<Rightarrow> tx list \<Rightarrow> rat" where
  "exact_balance a txs =
     (\<Sum>t \<leftarrow> txs. (if tx_to t = a then tx_amount t else 0)
                 - (if tx_from t = a \<and> tx_from t \<noteq> ''SYSTEM'' then tx_amount t else 0))"

definition volume :: "tx list \<Rightarrow> rat" where
  "volume txs = (\<Sum>t \<leftarrow> txs. \<bar>tx_amount t\<bar>)"

section \<open>Example data\<close>

text \<open>A block small enough for its hash input to fit one SHA-256 chunk.\<close>

definition ts_48 :: datetime where
  "ts_48 = \<lparr>year = 2025, month = 1, day = 1, hour = 0, minute = 0, second = 48,
            microsecond = 0, utcoffset = 0\<rparr>"

definition small_block :: "int \<Rightarrow> string \<Rightarrow> block" where
  "small_block n h =
     \<lparr>index = 1, previous_hash = ''0'', timestamp = ts_48, transactions = [], nonce = n, hash = h\<rparr>"

text \<open>The genesis timestamp, one second later, and a second block that nobody mined.\<close>

definition fixed_ts :: datetime where
  "fixed_ts = \<lparr>year = 2025, month = 1, day = 1, hour = 0, minute = 0, second = 0,
               microsecond = 0, utcoffset = 0\<rparr>"

definition ts_1 :: datetime where
  "ts_1 = \<lparr>year = 2025, month = 1, day = 1, hour = 0, minute = 0, second = 1,
           microsecond = 0, utcoffset = 0\<rparr>"

definition reward_to :: "string \<Rightarrow> pyfloat \<Rightarrow> tx" where
  "reward_to who a = \<lparr>tx_from = ''SYSTEM'', tx_to = who, tx_amount = a\<rparr>"

definition unmined_block :: block where
  "unmined_block = Block_init 1 (hash create_genesis_block) [reward_to ''miner'' 50] ts_1"

definition unmined_chain :: "block list" where
  "unmined_chain = [create_genesis_block, unmined_block]"

text \<open>A well-formed request to \<^verbatim>\<open>add_transaction\<close>.\<close>

definition request :: "string \<Rightarrow> string \<Rightarrow> rat \<Rightarrow> tx_input" where
  "request s r a = \<lparr>in_from = Some s, in_to = Some r, in_amount = Some a\<rparr>"


text \<open>
  A ledger of difficulty 1 and block capacity 1 that holds the same transfer twice, and the
  block it mines when the clock reads 00:00:54.
\<close>

definition ts_54 :: datetime where
  "ts_54 = \<lparr>year = 2025, month = 1, day = 1, hour = 0, minute = 0, second = 54,
            microsecond = 0, utcoffset = 0\<rparr>"

definition transfer :: tx where
  "transfer = \<lparr>tx_from = ''genesis'', tx_to = ''alice'', tx_amount = 100\<rparr>"

definition small_ledger :: blockchain where
  "small_ledger = Blockchain_init 1 50 1"

definition dup_ledger :: blockchain where
  "dup_ledger = small_ledger\<lparr>mempool := [transfer, transfer]\<rparr>"

definition mined_block :: "int \<Rightarrow> string \<Rightarrow> block" where
  "mined_block n h =
     \<lparr>index = 1, previous_hash = ''939dcf5ff8d60a1baf86c62d06a6f8e6b0ad01ca60c29aca9cd0ea0a25df35d3'',
      timestamp = ts_54, transactions = [transfer, reward_to ''miner'' 50], nonce = n, hash = h\<rparr>"

text \<open>Two transactions in both orders, and a chain that starts from another genesis block.\<close>

definition t_ab :: tx where
  "t_ab = \<lparr>tx_from = ''a'', tx_to = ''b'', tx_amount = 1\<rparr>"

definition t_ba :: tx where
  "t_ba = \<lparr>tx_from = ''b'', tx_to = ''a'', tx_amount = 1\<rparr>"

definition plain_block :: "tx list \<Rightarrow> block" where
  "plain_block txs =
     \<lparr>index = 0, previous_hash = ''0'', timestamp = fixed_ts, transactions = txs, nonce = 0, hash = []\<rparr>"

definition rogue_genesis :: block where
  "rogue_genesis = Block_init 0 ''0'' [reward_to ''mallory'' 1000000] fixed_ts"

definition rogue_block :: block where
  "rogue_block = Block_init 1 (hash rogue_genesis) [reward_to ''mallory'' 50] ts_1"

definition rogue_chain :: "block list" where
  "rogue_chain = [rogue_genesis, rogue_block]"

text \<open>
  The chain that \<open>dup_ledger\<close> has after mining.  A ledger of difficulty 0, two transfers of
  \<open>5 \<cdot> 2\<^sup>-\<^sup>4\<^sup>3\<close> (the float \<^verbatim>\<open>5.684341886080801e-13\<close>) and one of \<^verbatim>\<open>5000.0000000009995\<close>, and
  the blocks that ledger mines from them at 00:00:01.
\<close>

definition mined_chain :: "block list" where
  "mined_chain = [create_genesis_block,
                  mined_block 1 ''0685c6303dfd6e3551526c0e8c9fb273ae6bb82ea954b42125f5245e6c06e8b2'']"

definition easy_ledger :: blockchain where
  "easy_ledger = Blockchain_init 0 50 100"

definition dust :: tx where
  "dust = \<lparr>tx_from = ''genesis'', tx_to = ''alice'', tx_amount = 5 / 8796093022208\<rparr>"

definition big :: tx where
  "big = \<lparr>tx_from = ''genesis'', tx_to = ''bob'', tx_amount = 5497558138881099 / 1099511627776\<rparr>"

definition dust_block :: block where
  "dust_block = Block_init 1 (hash create_genesis_block) [dust, dust, reward_to ''miner'' 50] ts_1"

definition drift_block :: block where
  "drift_block = Block_init 1 (hash create_genesis_block) [dust, dust, big, reward_to ''miner'' 50] ts_1"

text \<open>
  A ledger whose only block allots \<open>10\<^sup>1\<^sup>6 + 8\<close> to \<^verbatim>\<open>whale\<close>, with three transfers of
  \<open>10\<^sup>1\<^sup>6\<close>, 3 and 3 from \<^verbatim>\<open>whale\<close> waiting in the mempool: their sum as floats is
  \<open>10\<^sup>1\<^sup>6 + 8\<close> when added from left to right and \<open>10\<^sup>1\<^sup>6 + 6\<close> when compensated.
\<close>

definition whale_tx :: "pyfloat \<Rightarrow> tx" where
  "whale_tx a = \<lparr>tx_from = ''whale'', tx_to = ''alice'', tx_amount = a\<rparr>"

definition whale_ledger :: blockchain where
  "whale_ledger =
     \<lparr>difficulty = 3, mining_reward = 50, block_capacity = 100,
      chain = [Block_init 0 ''0'' [reward_to ''whale'' 10000000000000008] fixed_ts],
      mempool = [whale_tx 10000000000000000, whale_tx 3, whale_tx 3], nodes = {}\<rparr>"

text \<open>A block record as a peer may send it: the hash is not the hash of the content.\<close>

definition forged :: block_data where
  "forged = \<lparr>d_index = 1, d_previous_hash = ''0'', d_timestamp = ts_48, d_transactions = Some [],
             d_nonce = Some 0, d_hash = Some ''000abc''\<rparr>"

section \<open>Hashing and mining a block\<close>

lemma length_hex32 [simp]: "length (hex32 w) = 8"
  by (simp add: hex32_def)

lemma length_sha256_hex [simp]: "length (sha256_hex bs) = 64"
  by (simp add: sha256_hex_def split: prod.splits)

lemma length_calculate_hash [simp]: "length (calculate_hash b) = 64"
  by (simp add: calculate_hash_def)

lemma calculate_hash_hash_update [simp]: "calculate_hash (b\<lparr>hash := h\<rparr>) = calculate_hash b"
  by (simp add: calculate_hash_def block_string_def)

lemma Block_init_consistent:
  "hash (Block_init i ph txs ts) = calculate_hash (Block_init i ph txs ts)"
  unfolding Block_init_def Let_def by (simp add: calculate_hash_def block_string_def)

lemma Block_init_fields [simp]:
  "index (Block_init i ph txs ts) = i" "previous_hash (Block_init i ph txs ts) = ph"
  "timestamp (Block_init i ph txs ts) = ts" "transactions (Block_init i ph txs ts) = txs"
  "nonce (Block_init i ph txs ts) = 0"
  by (simp_all add: Block_init_def Let_def)

lemma next_nonce_consistent: "hash (next_nonce b) = calculate_hash (next_nonce b)"
  unfolding next_nonce_def Let_def by (simp add: calculate_hash_def block_string_def)

lemma next_nonce_fields:
  "index (next_nonce b) = index b" "previous_hash (next_nonce b) = previous_hash b"
  "timestamp (next_nonce b) = timestamp b" "transactions (next_nonce b) = transactions b"
  "nonce (next_nonce b) = nonce b + 1"
  by (simp_all add: next_nonce_def Let_def)

text \<open>
  What the proof-of-work loop leaves behind when it ends: the target is met, a hash that
  matched its block still does, and only nonce and hash have changed.
\<close>

lemma mine_block_result:
  assumes "Block_mine_block d b = Some b'"
  shows "slice_to d (hash b') = replicate (nat d) CHR ''0''
         \<and> (hash b = calculate_hash b \<longrightarrow> hash b' = calculate_hash b')
         \<and> index b' = index b \<and> previous_hash b' = previous_hash b \<and> timestamp b' = timestamp b
         \<and> transactions b' = transactions b \<and> nonce b \<le> nonce b'"
proof (rule Block_mine_block.raw_induct[where P = "\<lambda>d b b'.
         slice_to d (hash b') = replicate (nat d) CHR ''0''
         \<and> (hash b = calculate_hash b \<longrightarrow> hash b' = calculate_hash b')
         \<and> index b' = index b \<and> previous_hash b' = previous_hash b \<and> timestamp b' = timestamp b
         \<and> transactions b' = transactions b \<and> nonce b \<le> nonce b'", OF _ assms])
  fix mine d b b'
  assume IH: "\<And>d b b'. mine d b = Some b' \<Longrightarrow>
         slice_to d (hash b') = replicate (nat d) CHR ''0''
         \<and> (hash b = calculate_hash b \<longrightarrow> hash b' = calculate_hash b')
         \<and> index b' = index b \<and> previous_hash b' = previous_hash b \<and> timestamp b' = timestamp b
         \<and> transactions b' = transactions b \<and> nonce b \<le> nonce b'"
    and step: "(if slice_to d (hash b) \<noteq> replicate (nat d) CHR ''0''
                then mine d (next_nonce b) else Some b) = Some b'"
  show "slice_to d (hash b') = replicate (nat d) CHR ''0''
         \<and> (hash b = calculate_hash b \<longrightarrow> hash b' = calculate_hash b')
         \<and> index b' = index b \<and> previous_hash b' = previous_hash b \<and> timestamp b' = timestamp b
         \<and> transactions b' = transactions b \<and> nonce b \<le> nonce b'"
  proof (cases "slice_to d (hash b) \<noteq> replicate (nat d) CHR ''0''")
    case True
    with step have "mine d (next_nonce b) = Some b'" by simp
    from IH[OF this] show ?thesis
      using next_nonce_consistent[of b] by (auto simp add: next_nonce_fields)
  next
    case False
    with step show ?thesis by simp
  qed
qed

text \<open>The loop returns at once on a block whose hash already meets the target.\<close>

lemma mine_block_done:
  "slice_to d (hash b) = replicate (nat d) CHR ''0'' \<Longrightarrow> Block_mine_block d b = Some b"
  by (subst Block_mine_block.simps) simp

lemma mine_block_step:
  "slice_to d (hash b) \<noteq> replicate (nat d) CHR ''0''
   \<Longrightarrow> Block_mine_block d b = Block_mine_block d (next_nonce b)"
  by (subst Block_mine_block.simps) simp

text \<open>
  When the loop returns, either it has hashed the block at least once, and then the stored
  hash is the one it computed last, or it has returned the block it was given.
\<close>

lemma mine_block_rehashed:
  assumes "Block_mine_block d b = Some b'"
  shows "hash b' = calculate_hash b' \<or> b' = b"
proof (rule Block_mine_block.raw_induct[where P = "\<lambda>d b b'. hash b' = calculate_hash b' \<or> b' = b",
        OF _ assms])
  fix mine d b b'
  assume IH: "\<And>d b b'. mine d b = Some b' \<Longrightarrow> hash b' = calculate_hash b' \<or> b' = b"
    and step: "(if slice_to d (hash b) \<noteq> replicate (nat d) CHR ''0''
                then mine d (next_nonce b) else Some b) = Some b'"
  show "hash b' = calculate_hash b' \<or> b' = b"
  proof (cases "slice_to d (hash b) \<noteq> replicate (nat d) CHR ''0''")
    case True
    with step have "mine d (next_nonce b) = Some b'" by simp
    from IH[OF this] show ?thesis
      using next_nonce_consistent[of b] by auto
  next
    case False
    with step show ?thesis by simp
  qed
qed

text \<open>
  \<^bold>\<open>Claim C1\<close> (as amended).  Right after construction by \<^verbatim>\<open>Block(...)\<close> the stored hash of a
  block is the hash recomputed from its fields.  Whenever \<^verbatim>\<open>mine_block(difficulty)\<close> returns,
  on any block, the first \<open>difficulty\<close> characters of the stored hash are all \<open>0\<close>; the stored
  hash is then the recomputed one if it was so before the call, and also if the block did not
  meet the target before the call.  Otherwise the call has returned the block as it was.
\<close>

theorem block_hash_self_consistent:
  "hash (Block_init i ph txs ts) = calculate_hash (Block_init i ph txs ts)
   \<and> (\<forall>b b'. Block_mine_block d b = Some b' \<longrightarrow>
          take (nat d) (hash b') = replicate (nat d) CHR ''0''
          \<and> (hash b = calculate_hash b \<longrightarrow> hash b' = calculate_hash b')
          \<and> (take (nat d) (hash b) \<noteq> replicate (nat d) CHR ''0'' \<longrightarrow> hash b' = calculate_hash b')
          \<and> (hash b' \<noteq> calculate_hash b' \<longrightarrow> b' = b))"
proof (intro conjI allI impI)
  show "hash (Block_init i ph txs ts) = calculate_hash (Block_init i ph txs ts)"
    by (rule Block_init_consistent)
next
  fix b b' assume m: "Block_mine_block d b = Some b'"
  from mine_block_result[OF m] have "slice_to d (hash b') = replicate (nat d) CHR ''0''" by simp
  then show t: "take (nat d) (hash b') = replicate (nat d) CHR ''0''"
    by (cases "0 \<le> d") (simp_all add: slice_to_def)
  {
    assume "hash b = calculate_hash b"
    with mine_block_result[OF m] show "hash b' = calculate_hash b'" by simp
  }
  {
    assume "take (nat d) (hash b) \<noteq> replicate (nat d) CHR ''0''"
    with t have "b' \<noteq> b" by auto
    with mine_block_rehashed[OF m] show "hash b' = calculate_hash b'" by simp
  }
  {
    assume "hash b' \<noteq> calculate_hash b'"
    with mine_block_rehashed[OF m] show "b' = b" by simp
  }
qed

text \<open>
  A run of the loop at difficulty 1: the block \<^verbatim>\<open>Block(1, "0", [], 2025-01-01T00:00:48Z)\<close>
  is hashed three times and leaves the loop with nonce 2.
\<close>

lemma small_block_digest0:
  "calculate_hash (small_block 0 h) = ''98ae434f42bba1db71f8f3125bc517e9d89589d9ea97926937333b973640524b''"
  by code_simp

lemma small_block_digest1:
  "calculate_hash (small_block 1 h) = ''e56e1174a594be75bf1f49d7b0597e566579d5ca9ea3cd107a3e7cf5f9928a90''"
  by code_simp

lemma small_block_digest2:
  "calculate_hash (small_block 2 h) = ''04cd566c27c9a2c5167bf13dd6a5535d459703a4654e418fde3855da7f921649''"
  by code_simp

lemma small_block_init:
  "Block_init 1 ''0'' [] ts_48
     = small_block 0 ''98ae434f42bba1db71f8f3125bc517e9d89589d9ea97926937333b973640524b''"
  using small_block_digest0[of "[]"] by (simp add: Block_init_def small_block_def)

lemma small_block_next0:
  "next_nonce (small_block 0 h)
     = small_block 1 ''e56e1174a594be75bf1f49d7b0597e566579d5ca9ea3cd107a3e7cf5f9928a90''"
  using small_block_digest1[of h] by (simp add: next_nonce_def small_block_def)

lemma small_block_next1:
  "next_nonce (small_block 1 h)
     = small_block 2 ''04cd566c27c9a2c5167bf13dd6a5535d459703a4654e418fde3855da7f921649''"
  using small_block_digest2[of h] by (simp add: next_nonce_def small_block_def)

lemma small_block_mined:
  "Block_mine_block 1 (Block_init 1 ''0'' [] ts_48)
     = Some (small_block 2 ''04cd566c27c9a2c5167bf13dd6a5535d459703a4654e418fde3855da7f921649'')"
proof -
  have sel: "\<And>n h. hash (small_block n h) = h" by (simp add: small_block_def)
  have "Block_mine_block 1 (small_block 2 ''04cd566c27c9a2c5167bf13dd6a5535d459703a4654e418fde3855da7f921649'')
          = Some (small_block 2 ''04cd566c27c9a2c5167bf13dd6a5535d459703a4654e418fde3855da7f921649'')"
    by (rule mine_block_done) (simp add: sel slice_to_def)
  then have "Block_mine_block 1 (small_block 1 ''e56e1174a594be75bf1f49d7b0597e566579d5ca9ea3cd107a3e7cf5f9928a90'')
          = Some (small_block 2 ''04cd566c27c9a2c5167bf13dd6a5535d459703a4654e418fde3855da7f921649'')"
    by (subst mine_block_step) (simp_all add: sel slice_to_def small_block_next1)
  then have "Block_mine_block 1 (small_block 0 ''98ae434f42bba1db71f8f3125bc517e9d89589d9ea97926937333b973640524b'')
          = Some (small_block 2 ''04cd566c27c9a2c5167bf13dd6a5535d459703a4654e418fde3855da7f921649'')"
    by (subst mine_block_step) (simp_all add: sel slice_to_def small_block_next0)
  then show ?thesis by (simp only: small_block_init)
qed

theorem block_hash_self_consistent_witness:
  "Block_mine_block 1 (Block_init 1 ''0'' [] ts_48)
     = Some (small_block 2 ''04cd566c27c9a2c5167bf13dd6a5535d459703a4654e418fde3855da7f921649'')
   \<and> hash (Block_init 1 ''0'' [] ts_48) = calculate_hash (Block_init 1 ''0'' [] ts_48)
   \<and> take (nat 1) (hash (Block_init 1 ''0'' [] ts_48)) \<noteq> replicate (nat 1) CHR ''0''
   \<and> hash (small_block 2 ''04cd566c27c9a2c5167bf13dd6a5535d459703a4654e418fde3855da7f921649'')
       = calculate_hash (small_block 2 ''04cd566c27c9a2c5167bf13dd6a5535d459703a4654e418fde3855da7f921649'')
   \<and> take (nat 1) (hash (small_block 2 ''04cd566c27c9a2c5167bf13dd6a5535d459703a4654e418fde3855da7f921649''))
       = replicate (nat 1) CHR ''0''"
proof -
  have "take (nat 1) (hash (Block_init 1 ''0'' [] ts_48)) \<noteq> replicate (nat 1) CHR ''0''"
    by (simp add: small_block_init small_block_def)
  with block_hash_self_consistent[of 1 "''0''" "[]" ts_48 1] small_block_mined
  show ?thesis by blast
qed

text \<open>
  Against claim C1 as stated: \<^verbatim>\<open>from_dict\<close> builds a block and then stores the hash of the
  record it was given, here \<^verbatim>\<open>000abc\<close>, which is not the hash of the block's fields;
  \<^verbatim>\<open>mine_block(3)\<close> tests that stored hash, finds three leading zeros and returns at once, and
  the stored hash is still not the recomputed one.
\<close>

theorem foreign_hash_survives_mining:
  "hash (from_dict forged) = ''000abc''
   \<and> hash (from_dict forged) \<noteq> calculate_hash (from_dict forged)
   \<and> Block_mine_block 3 (from_dict forged) = Some (from_dict forged)"
proof -
  have h: "hash (from_dict forged) = ''000abc''"
    by (simp add: from_dict_def forged_def Let_def)
  have "length (hash (from_dict forged)) \<noteq> length (calculate_hash (from_dict forged))"
    by (simp add: h length_calculate_hash)
  then have d: "hash (from_dict forged) \<noteq> calculate_hash (from_dict forged)"
    by (auto dest: arg_cong[where f = length])
  have "Block_mine_block 3 (from_dict forged) = Some (from_dict forged)"
    by (rule mine_block_done) (simp add: h slice_to_def eval_nat_numeral)
  with h d show ?thesis by simp
qed

section \<open>Chain validation\<close>

lemma round_half_even_bounds: "\<lfloor>x\<rfloor> \<le> round_half_even x \<and> round_half_even x \<le> \<lceil>x\<rceil>"
  unfolding round_half_even_def Let_def
  by (auto simp: ceiling_altdef)

lemma round_half_even_of_int [simp]: "round_half_even (of_int n) = n"
  by (simp add: round_half_even_def Let_def)

lemma pow2_pos [simp]: "0 < power_int (2::rat) k"
  by (simp add: power_int_def)

lemma fl_nonpos: "x \<le> 0 \<Longrightarrow> fl x \<le> 0"
proof -
  assume x: "x \<le> 0"
  have "round_half_even (x / q) \<le> 0" if "0 < q" for q
  proof -
    from x that have "x / q \<le> 0" by (simp add: divide_nonpos_pos)
    then have "\<lceil>x / q\<rceil> \<le> 0" by (simp add: ceiling_le_zero)
    with round_half_even_bounds[of "x / q"] show ?thesis by linarith
  qed
  then show ?thesis
    by (simp add: fl_def Let_def mult_nonpos_nonneg)
qed

lemma fl_nonneg: "0 \<le> x \<Longrightarrow> 0 \<le> fl x"
proof -
  assume x: "0 \<le> x"
  have "0 \<le> round_half_even (x / q)" if "0 < q" for q
  proof -
    from x that have "0 \<le> x / q" by simp
    then have "0 \<le> \<lfloor>x / q\<rfloor>" by simp
    with round_half_even_bounds[of "x / q"] show ?thesis by linarith
  qed
  then show ?thesis
    by (simp add: fl_def Let_def)
qed



subsection \<open>The example chains\<close>

lemma genesis_fields [simp]:
  "index create_genesis_block = 0" "previous_hash create_genesis_block = ''0''"
  "timestamp create_genesis_block = fixed_ts"
  "transactions create_genesis_block = [reward_to ''genesis'' 5000]"
  "nonce create_genesis_block = 0"
  "calculate_hash create_genesis_block = hash create_genesis_block"
  by (simp_all add: create_genesis_block_def Let_def fixed_ts_def reward_to_def Block_init_consistent)

lemma Block_init_hash_eq [simp]:
  "calculate_hash (Block_init i ph txs ts) = hash (Block_init i ph txs ts)"
  by (simp add: Block_init_consistent)

lemma check_tx_system [simp]:
  "check_tx bal (reward_to who a) =
     (if a < 0 then None else Some (bal(who \<mapsto> fadd (get0 bal who) a)))"
  by (simp add: check_tx_def reward_to_def Let_def)

lemma ts_1_later [simp]: "\<not> dt_le ts_1 fixed_ts"
  by code_simp

lemma ts_same [simp]: "dt_le fixed_ts fixed_ts"
  by (simp add: dt_le_def)

lemma unmined_chain_valid: "check_blocks 0 None Map.empty unmined_chain"
  by (simp add: unmined_chain_def unmined_block_def)

lemma genesis_digest:
  "hash create_genesis_block = ''939dcf5ff8d60a1baf86c62d06a6f8e6b0ad01ca60c29aca9cd0ea0a25df35d3''"
  by code_simp

lemma unmined_digest:
  "calculate_hash \<lparr>index = 1, previous_hash = ''939dcf5ff8d60a1baf86c62d06a6f8e6b0ad01ca60c29aca9cd0ea0a25df35d3'',
       timestamp = ts_1, transactions = [reward_to ''miner'' 50], nonce = 0, hash = []\<rparr>
   = ''2d7131c48c90c24c4c8eff5ca8e53c79281b5ea417f10e77363e7c7d77a15bfa''"
  by code_simp

lemma unmined_hash:
  "hash unmined_block = ''2d7131c48c90c24c4c8eff5ca8e53c79281b5ea417f10e77363e7c7d77a15bfa''"
  by (simp add: unmined_block_def Block_init_def genesis_digest unmined_digest)

subsection \<open>Claims about validation and chain replacement\<close>



text \<open>
  \<^bold>\<open>Claim C4.\<close>  \<^verbatim>\<open>replace_chain\<close> returns \<open>True\<close> exactly when the candidate is strictly
  longer than the current chain and passes \<^verbatim>\<open>is_chain_valid\<close>; it then installs the candidate
  and changes nothing else.  In every other case it returns \<open>False\<close> and the ledger is
  as it was.
\<close>

theorem replace_chain_longest_valid:
  "(fst (replace_chain self c) \<longleftrightarrow> length (chain self) < length c \<and> is_chain_valid self (Some c))
   \<and> (fst (replace_chain self c) \<longrightarrow> snd (replace_chain self c) = self\<lparr>chain := c\<rparr>)
   \<and> (\<not> fst (replace_chain self c) \<longrightarrow> snd (replace_chain self c) = self)"
  by (simp add: replace_chain_def)

lemma unmined_chain_is_valid: "is_chain_valid self (Some unmined_chain)"
  using unmined_chain_valid by (simp add: is_chain_valid_def unmined_chain_def)

text \<open>
  The fresh ledger adopts the valid two-block chain; offered the same chain again, now of
  equal length, it keeps its own.
\<close>

theorem replace_chain_longest_valid_witness:
  "replace_chain fresh unmined_chain = (True, fresh\<lparr>chain := unmined_chain\<rparr>)
   \<and> replace_chain (fresh\<lparr>chain := unmined_chain\<rparr>) unmined_chain = (False, fresh\<lparr>chain := unmined_chain\<rparr>)"
proof -
  have l: "length (chain fresh) < length unmined_chain"
    by (simp add: fresh_def Blockchain_init_def unmined_chain_def)
  have n: "\<not> length (chain (fresh\<lparr>chain := unmined_chain\<rparr>)) < length unmined_chain" by simp
  from replace_chain_longest_valid[of fresh unmined_chain] l unmined_chain_is_valid[of fresh]
       replace_chain_longest_valid[of "fresh\<lparr>chain := unmined_chain\<rparr>" unmined_chain] n
  show ?thesis by (auto simp add: prod_eq_iff)
qed

text \<open>
  \<^bold>\<open>Claim C9.\<close>  There is a chain that \<^verbatim>\<open>is_chain_valid\<close> accepts, with every stored hash
  equal to the recomputed one, whose second block does not meet the ledger's difficulty:
  the block was constructed and never mined, its hash starts with \<^verbatim>\<open>2d7\<close>, and the ledger's
  difficulty is 3.
\<close>

theorem validation_ignores_difficulty:
  "is_chain_valid fresh (Some unmined_chain)
   \<and> length unmined_chain = 2
   \<and> hash (unmined_chain ! 0) = calculate_hash (unmined_chain ! 0)
   \<and> hash (unmined_chain ! 1) = calculate_hash (unmined_chain ! 1)
   \<and> difficulty fresh = 3
   \<and> slice_to (difficulty fresh) (hash (unmined_chain ! 1)) \<noteq> replicate (nat (difficulty fresh)) CHR ''0''
   \<and> Block_mine_block (difficulty fresh) (unmined_chain ! 1) \<noteq> Some (unmined_chain ! 1)"
proof -
  have d: "difficulty fresh = 3" by (simp add: fresh_def Blockchain_init_def)
  have z: "slice_to 3 (hash unmined_block) \<noteq> replicate (nat 3) CHR ''0''"
    by (simp add: unmined_hash slice_to_def eval_nat_numeral)
  have "Block_mine_block 3 unmined_block \<noteq> Some unmined_block"
    using mine_block_result[of 3 unmined_block unmined_block] z by auto
  with d z unmined_chain_is_valid[of fresh] show ?thesis
    by (simp add: unmined_chain_def unmined_block_def)
qed

section \<open>Admission of transactions\<close>

text \<open>
  \<^bold>\<open>Claim C5\<close> (as amended).  \<^verbatim>\<open>add_transaction\<close> raises an error of the class
  \<open>InvalidInput\<close> when one of the fields \<^verbatim>\<open>from\<close>, \<^verbatim>\<open>to\<close>, \<^verbatim>\<open>amount\<close> is missing, and, for an
  amount that \<^verbatim>\<open>float\<close> converts, when an address is empty or blank or the amount is at most
  0.  On an otherwise well-formed request whose sender is not \<^verbatim>\<open>SYSTEM\<close> it raises
  \<open>InsufficientFunds\<close> when the sender's balance less the sum of the sender's pending debits,
  as the running interpreter computes them in floats, is below the amount less \<^verbatim>\<open>1e-9\<close>; the
  bound on the amounts keeps every float of that computation finite.  A failure leaves the
  ledger as it was; a success appends exactly one record, made of the two addresses and the
  amount as a float, to the end of the mempool.
\<close>

theorem add_transaction_admission:
  "((in_from t = None \<or> in_to t = None \<or> in_amount t = None
       \<or> (\<exists>a. in_amount t = Some a \<and> \<not> float_overflows a
             \<and> ((\<exists>s. in_from t = Some s \<and> strip s = []) \<or> (\<exists>r. in_to t = Some r \<and> strip r = [])
                  \<or> a \<le> 0)))
      \<longrightarrow> (\<exists>e. add_transaction py self t = (Inl e, self) \<and> invalid_input e))
   \<and> (\<forall>s r a. in_from t = Some s \<and> in_to t = Some r \<and> in_amount t = Some a
         \<and> \<not> float_overflows a
         \<and> strip s \<noteq> [] \<and> strip r \<noteq> [] \<and> 0 < fl a \<and> s \<noteq> ''SYSTEM''
         \<and> volume (all_txs (chain self)) + volume (mempool self) + \<bar>a\<bar> < 2 ^ 1023
         \<and> fsub (get_balance self s) (pending_out py self s) < fsub (fl a) eps
        \<longrightarrow> add_transaction py self t = (Inl InsufficientFunds, self))
   \<and> (\<forall>e self'. add_transaction py self t = (Inl e, self') \<longrightarrow> self' = self)
   \<and> (\<forall>self'. add_transaction py self t = (Inr (), self') \<longrightarrow>
         (\<exists>s r a. in_from t = Some s \<and> in_to t = Some r \<and> in_amount t = Some a
            \<and> self' = self\<lparr>mempool := mempool self @ [\<lparr>tx_from = s, tx_to = r, tx_amount = fl a\<rparr>]\<rparr>))"
proof (intro conjI allI impI)
  assume bad: "in_from t = None \<or> in_to t = None \<or> in_amount t = None
       \<or> (\<exists>a. in_amount t = Some a \<and> \<not> float_overflows a
             \<and> ((\<exists>s. in_from t = Some s \<and> strip s = []) \<or> (\<exists>r. in_to t = Some r \<and> strip r = [])
                  \<or> a \<le> 0))"
  show "\<exists>e. add_transaction py self t = (Inl e, self) \<and> invalid_input e"
  proof (cases "in_from t")
    case None then show ?thesis by (simp add: add_transaction_def)
  next
    case s: (Some s)
    show ?thesis
    proof (cases "in_to t")
      case None with s show ?thesis by (simp add: add_transaction_def)
    next
      case r: (Some r)
      show ?thesis
      proof (cases "in_amount t")
        case None with s r show ?thesis by (simp add: add_transaction_def)
      next
        case a: (Some a)
        from bad s r a have c: "\<not> float_overflows a"
          and "strip s = [] \<or> strip r = [] \<or> fl a \<le> 0"
          using fl_nonpos[of a] by auto
        with s r a show ?thesis by (auto simp add: add_transaction_def Let_def)
      qed
    qed
  qed
next
  fix s r a
  assume "in_from t = Some s \<and> in_to t = Some r \<and> in_amount t = Some a
         \<and> \<not> float_overflows a
         \<and> strip s \<noteq> [] \<and> strip r \<noteq> [] \<and> 0 < fl a \<and> s \<noteq> ''SYSTEM''
         \<and> volume (all_txs (chain self)) + volume (mempool self) + \<bar>a\<bar> < 2 ^ 1023
         \<and> fsub (get_balance self s) (pending_out py self s) < fsub (fl a) eps"
  then show "add_transaction py self t = (Inl InsufficientFunds, self)"
    by (simp add: add_transaction_def Let_def)
next
  fix e self' assume "add_transaction py self t = (Inl e, self')"
  then show "self' = self"
    by (auto simp add: add_transaction_def Let_def split: option.splits if_splits)
next
  fix self' assume "add_transaction py self t = (Inr (), self')"
  then show "\<exists>s r a. in_from t = Some s \<and> in_to t = Some r \<and> in_amount t = Some a
            \<and> self' = self\<lparr>mempool := mempool self @ [\<lparr>tx_from = s, tx_to = r, tx_amount = fl a\<rparr>]\<rparr>"
    by (auto simp add: add_transaction_def Let_def split: option.splits if_splits)
qed

lemma strip_names [simp]:
  "strip ''genesis'' \<noteq> []" "strip ''alice'' \<noteq> []" "strip ''bob'' \<noteq> []" "strip ''miner'' \<noteq> []"
  "strip ''whale'' \<noteq> []"
  by code_simp+

lemma float_values [simp]:
  "fl 100 = 100" "fl 5000 = 5000" "fl 4900 = 4900" "fl 0 = 0" "fl 50 = 50" "fl 4950 = 4950"
  "fl 1 = 1" "fl (- 5) = - 5"
  by code_simp+

lemma float_in_range [simp]:
  "\<not> float_overflows 0" "\<not> float_overflows (- 5)" "\<not> float_overflows 100"
  "\<not> float_overflows 4950" "\<not> float_overflows 1"
  by (simp_all add: float_overflows_def)

text \<open>The float next to \<open>-2\<^sup>1\<^sup>0\<^sup>2\<^sup>4\<close> is \<open>-2\<^sup>1\<^sup>0\<^sup>2\<^sup>4\<close> itself, beyond the largest binary64 number.\<close>

lemma ilog2_pow2: "ilog2 (2 ^ n) = int n"
proof -
  have "quotient_of ((2::rat) ^ n) = (2 ^ n, 1)"
    using quotient_of_int[of "2 ^ n"] by (simp add: Rat.of_int_def)
  moreover have "bitlen (2 ^ n) = int n + 1"
    using bitlen_twopow_add_eq[of 0 n] by simp
  moreover have "bitlen 1 = 1"
    using bitlen_twopow_add_eq[of 0 0] by simp
  ultimately show ?thesis
    by (simp add: ilog2_def Let_def power_int_def)
qed

lemma fl_huge: "fl (- (2 ^ 1024)) = - (2 ^ 1024)"
proof -
  have q: "power_int (2::rat) 972 = 2 ^ 972" by (simp add: power_int_def)
  have r: "round_half_even (- 4503599627370496) = - 4503599627370496"
    using round_half_even_of_int[of "- 4503599627370496"] by simp
  have "ilog2 \<bar>- (2 ^ 1024) :: rat\<bar> = 1024"
    using ilog2_pow2[of 1024] by simp
  then show ?thesis
    by (simp add: fl_def Let_def q r)
qed

lemma float_out_of_range: "float_overflows (- (2 ^ 1024))"
  unfolding float_overflows_def fl_huge by simp

lemma eps_small:
  "0 < fsub 100 eps" "fsub 100 eps \<le> 4900" "fsub 100 eps \<le> 5000" "4900 < fsub 4950 eps"
  "0 < fsub 1 eps" "fsub 1 eps \<le> 2"
  by code_simp+

lemma py_sum_short [simp]:
  "py_sum py [] = 0" "py_sum py [x] = fadd 0 x"
  by (cases py; simp)+

lemma get_balance_fresh:
  "get_balance fresh a = (if a = ''genesis'' then 5000 else 0)"
  by (simp add: get_balance_def fresh_def Blockchain_init_def balance_step_def reward_to_def fadd_def Let_def)

lemma pending_out_fresh [simp]: "pending_out py fresh a = 0"
  by (simp add: pending_out_def fresh_def Blockchain_init_def)

lemma small_ledger_fields [simp]:
  "difficulty small_ledger = 1" "mining_reward small_ledger = 50" "block_capacity small_ledger = 1"
  "chain small_ledger = [create_genesis_block]" "mempool small_ledger = []"
  by (simp_all add: small_ledger_def Blockchain_init_def)

lemma get_balance_genesis_only:
  "chain self = [create_genesis_block] \<Longrightarrow> get_balance self a = (if a = ''genesis'' then 5000 else 0)"
  by (simp add: get_balance_def balance_step_def reward_to_def fadd_def Let_def)

text \<open>The sums of the whale's pending debits, and what they leave of the balance.\<close>

lemma whale_sums:
  "py_sum Until311 [10000000000000000, 3, 3] = 10000000000000008"
  "py_sum From312 [10000000000000000, 3, 3] = 10000000000000006"
  "fadd 0 10000000000000008 = 10000000000000008"
  "fsub 10000000000000008 10000000000000008 = 0"
  "fsub 10000000000000008 10000000000000006 = 2"
  by code_simp+

lemma whale_state:
  "get_balance whale_ledger ''whale'' = 10000000000000008"
  "pending_out Until311 whale_ledger ''whale'' = 10000000000000008"
  "pending_out From312 whale_ledger ''whale'' = 10000000000000006"
  by (simp_all add: get_balance_def pending_out_def whale_ledger_def whale_tx_def balance_step_def
      reward_to_def whale_sums Let_def del: py_sum.simps)

text \<open>
  On the fresh ledger: amounts 0 and \<open>-5\<close> are refused, \<^verbatim>\<open>alice\<close> (balance 0) cannot send 100,
  and \<^verbatim>\<open>genesis\<close> (balance 5000) can.  With a transfer of 100 pending, \<^verbatim>\<open>genesis\<close> cannot send
  4950.  The whale's request for 1 is refused where \<^verbatim>\<open>sum\<close> adds from left to right (nothing
  is left of the balance) and admitted where it compensates (2 are left).
\<close>

theorem add_transaction_admission_witness:
  "add_transaction Until311 fresh (request ''genesis'' ''alice'' 0) = (Inl NonPositiveAmount, fresh)
   \<and> add_transaction From312 fresh (request ''genesis'' ''alice'' (- 5)) = (Inl NonPositiveAmount, fresh)
   \<and> add_transaction Until311 fresh (request ''alice'' ''bob'' 100) = (Inl InsufficientFunds, fresh)
   \<and> add_transaction From312 (small_ledger\<lparr>mempool := [transfer]\<rparr>) (request ''genesis'' ''bob'' 4950)
       = (Inl InsufficientFunds, small_ledger\<lparr>mempool := [transfer]\<rparr>)
   \<and> add_transaction Until311 whale_ledger (request ''whale'' ''bob'' 1) = (Inl InsufficientFunds, whale_ledger)
   \<and> add_transaction From312 whale_ledger (request ''whale'' ''bob'' 1)
       = (Inr (), whale_ledger\<lparr>mempool := mempool whale_ledger @ [\<lparr>tx_from = ''whale'', tx_to = ''bob'', tx_amount = 1\<rparr>]\<rparr>)
   \<and> add_transaction From312 fresh (request ''genesis'' ''alice'' 100)
       = (Inr (), fresh\<lparr>mempool := mempool fresh @ [\<lparr>tx_from = ''genesis'', tx_to = ''alice'', tx_amount = 100\<rparr>]\<rparr>)"
proof -
  have zero: "\<exists>e. add_transaction Until311 fresh (request ''genesis'' ''alice'' 0) = (Inl e, fresh) \<and> invalid_input e"
    using add_transaction_admission[of "request ''genesis'' ''alice'' 0" Until311 fresh]
    by (simp add: request_def)
  have zero': "add_transaction Until311 fresh (request ''genesis'' ''alice'' 0) = (Inl NonPositiveAmount, fresh)"
    by (simp add: add_transaction_def request_def Let_def)
  have neg: "\<exists>e. add_transaction From312 fresh (request ''genesis'' ''alice'' (- 5)) = (Inl e, fresh) \<and> invalid_input e"
    using add_transaction_admission[of "request ''genesis'' ''alice'' (- 5)" From312 fresh]
    by (simp add: request_def)
  have neg': "add_transaction From312 fresh (request ''genesis'' ''alice'' (- 5)) = (Inl NonPositiveAmount, fresh)"
    by (simp add: add_transaction_def request_def Let_def)
  have v0: "volume (all_txs (chain fresh)) + volume (mempool fresh) + \<bar>100\<bar> < 2 ^ 1023"
    by (simp add: volume_def all_txs_def fresh_def Blockchain_init_def reward_to_def)
  have poor: "fsub (get_balance fresh ''alice'') (pending_out Until311 fresh ''alice'') < fsub (fl 100) eps"
    using eps_small by (simp add: get_balance_fresh fsub_def)
  from add_transaction_admission[of "request ''alice'' ''bob'' 100" Until311 fresh] poor v0
  have 1: "add_transaction Until311 fresh (request ''alice'' ''bob'' 100) = (Inl InsufficientFunds, fresh)"
    by (simp add: request_def)
  have v1: "volume (all_txs (chain (small_ledger\<lparr>mempool := [transfer]\<rparr>)))
            + volume (mempool (small_ledger\<lparr>mempool := [transfer]\<rparr>)) + \<bar>4950\<bar> < 2 ^ 1023"
    by (simp add: volume_def all_txs_def reward_to_def transfer_def)
  have queued: "fsub (get_balance (small_ledger\<lparr>mempool := [transfer]\<rparr>) ''genesis'')
                     (pending_out From312 (small_ledger\<lparr>mempool := [transfer]\<rparr>) ''genesis'')
                < fsub (fl 4950) eps"
    using eps_small
    by (simp add: get_balance_genesis_only pending_out_def transfer_def fsub_def fadd_def)
  from add_transaction_admission[of "request ''genesis'' ''bob'' 4950" From312 "small_ledger\<lparr>mempool := [transfer]\<rparr>"]
       queued v1
  have 2: "add_transaction From312 (small_ledger\<lparr>mempool := [transfer]\<rparr>) (request ''genesis'' ''bob'' 4950)
       = (Inl InsufficientFunds, small_ledger\<lparr>mempool := [transfer]\<rparr>)"
    by (simp add: request_def)
  have v2: "volume (all_txs (chain whale_ledger)) + volume (mempool whale_ledger) + \<bar>1\<bar> < 2 ^ 1023"
    by (simp add: volume_def all_txs_def whale_ledger_def whale_tx_def reward_to_def)
  have out: "fsub (get_balance whale_ledger ''whale'') (pending_out Until311 whale_ledger ''whale'')
             < fsub (fl 1) eps"
    using eps_small by (simp add: whale_state whale_sums)
  from add_transaction_admission[of "request ''whale'' ''bob'' 1" Until311 whale_ledger] out v2
  have 3: "add_transaction Until311 whale_ledger (request ''whale'' ''bob'' 1) = (Inl InsufficientFunds, whale_ledger)"
    by (simp add: request_def)
  have "add_transaction From312 whale_ledger (request ''whale'' ''bob'' 1)
       = (Inr (), snd (add_transaction From312 whale_ledger (request ''whale'' ''bob'' 1)))"
    using eps_small by (simp add: add_transaction_def request_def whale_state whale_sums Let_def)
  with add_transaction_admission[of "request ''whale'' ''bob'' 1" From312 whale_ledger]
  have 4: "add_transaction From312 whale_ledger (request ''whale'' ''bob'' 1)
       = (Inr (), whale_ledger\<lparr>mempool := mempool whale_ledger @ [\<lparr>tx_from = ''whale'', tx_to = ''bob'', tx_amount = 1\<rparr>]\<rparr>)"
    by (auto simp add: request_def)
  have "add_transaction From312 fresh (request ''genesis'' ''alice'' 100)
       = (Inr (), snd (add_transaction From312 fresh (request ''genesis'' ''alice'' 100)))"
    using eps_small by (simp add: add_transaction_def request_def get_balance_fresh fsub_def Let_def)
  with add_transaction_admission[of "request ''genesis'' ''alice'' 100" From312 fresh]
  have 5: "add_transaction From312 fresh (request ''genesis'' ''alice'' 100)
       = (Inr (), fresh\<lparr>mempool := mempool fresh @ [\<lparr>tx_from = ''genesis'', tx_to = ''alice'', tx_amount = 100\<rparr>]\<rparr>)"
    by (auto simp add: request_def)
  from zero zero' neg neg' 1 2 3 4 5 show ?thesis by simp
qed

text \<open>
  Against claim C5 as stated: the amount \<open>-2\<^sup>1\<^sup>0\<^sup>2\<^sup>4\<close>, an \<^verbatim>\<open>int\<close>, is at most 0, and the call
  fails with \<^verbatim>\<open>OverflowError\<close>, raised by \<^verbatim>\<open>float\<close>, which is not an error of the class
  \<open>InvalidInput\<close>.
\<close>

theorem add_transaction_overflow:
  "(- (2 ^ 1024) :: rat) \<le> 0
   \<and> add_transaction Until311 fresh (request ''genesis'' ''alice'' (- (2 ^ 1024))) = (Inl OverflowError, fresh)
   \<and> add_transaction From312 fresh (request ''genesis'' ''alice'' (- (2 ^ 1024))) = (Inl OverflowError, fresh)
   \<and> \<not> invalid_input OverflowError"
  using float_out_of_range by (simp add: add_transaction_def request_def)

section \<open>Mining on the ledger\<close>

lemma get_latest_block_nonempty: "chain self \<noteq> [] \<Longrightarrow> get_latest_block self = Inr (last (chain self))"
  by (simp add: get_latest_block_def)

text \<open>The ledger's \<^verbatim>\<open>mine_block\<close> in terms of the block's.\<close>

lemma Blockchain_mine_block_unfold:
  assumes "strip miner \<noteq> []" and "chain self \<noteq> []"
  shows "Blockchain_mine_block now self miner =
     (case Block_mine_block (difficulty self)
             (Block_init (int (length (chain self))) (hash (last (chain self)))
                (slice_to (block_capacity self) (mempool self)
                   @ [\<lparr>tx_from = ''SYSTEM'', tx_to = miner, tx_amount = mining_reward self\<rparr>]) now) of
        None \<Rightarrow> None
      | Some b \<Rightarrow> Some (Inr b,
          self\<lparr>chain := chain self @ [b],
               mempool := filter (\<lambda>t. dumps t \<notin> dumps ` {u \<in> set (slice_to (block_capacity self) (mempool self)).
                                                           tx_from u \<noteq> ''SYSTEM''}) (mempool self)\<rparr>))"
proof -
  have "set (map dumps (filter (\<lambda>t. tx_from t \<noteq> ''SYSTEM'')
           (slice_to (block_capacity self) (mempool self)
              @ [\<lparr>tx_from = ''SYSTEM'', tx_to = miner, tx_amount = mining_reward self\<rparr>])))
        = dumps ` {u \<in> set (slice_to (block_capacity self) (mempool self)). tx_from u \<noteq> ''SYSTEM''}"
    by auto
  then show ?thesis
    using assms
    by (simp add: Blockchain_mine_block_def Let_def get_latest_block_nonempty split: option.splits)
qed

text \<open>
  \<^bold>\<open>Claim C6\<close> (as amended).  With a non-blank miner address, a non-empty chain, a
  non-negative block capacity and no entry sent by \<^verbatim>\<open>SYSTEM\<close> among the first
  \<open>block_capacity\<close> entries of the mempool, a call of \<^verbatim>\<open>mine_block\<close> that returns has built a
  block whose transactions are the first \<open>min(block_capacity, len(mempool))\<close> mempool entries
  in their order followed by one \<^verbatim>\<open>SYSTEM\<close>-to-miner transaction of \<^verbatim>\<open>mining_reward\<close>, with
  the chain's length as index, the head's hash as \<^verbatim>\<open>previous_hash\<close> and the clock's reading
  as timestamp; the block is appended to the chain; and the mempool keeps, in their order,
  exactly the entries whose serialization differs from that of every included mempool entry.
  So the pruning goes by value: every copy of an included value is removed, wherever in the
  mempool it stands, and every other entry stays.
\<close>

theorem mine_block_effect:
  assumes "strip miner \<noteq> []" and "chain self \<noteq> []" and "0 \<le> block_capacity self"
      and "\<forall>u \<in> set (take (nat (block_capacity self)) (mempool self)). tx_from u \<noteq> ''SYSTEM''"
      and "Blockchain_mine_block now self miner = Some (r, self')"
  shows "\<exists>b. r = Inr b
     \<and> transactions b = take (nat (block_capacity self)) (mempool self)
                          @ [\<lparr>tx_from = ''SYSTEM'', tx_to = miner, tx_amount = mining_reward self\<rparr>]
     \<and> length (transactions b) = min (nat (block_capacity self)) (length (mempool self)) + 1
     \<and> index b = int (length (chain self)) \<and> previous_hash b = hash (last (chain self))
     \<and> timestamp b = now
     \<and> chain self' = chain self @ [b]
     \<and> mempool self' = filter (\<lambda>t. \<forall>u \<in> set (take (nat (block_capacity self)) (mempool self)).
                                       dumps u \<noteq> dumps t) (mempool self)
     \<and> difficulty self' = difficulty self \<and> mining_reward self' = mining_reward self
     \<and> block_capacity self' = block_capacity self \<and> nodes self' = nodes self"
proof -
  let ?txs = "slice_to (block_capacity self) (mempool self)
                @ [\<lparr>tx_from = ''SYSTEM'', tx_to = miner, tx_amount = mining_reward self\<rparr>]"
  let ?b0 = "Block_init (int (length (chain self))) (hash (last (chain self))) ?txs now"
  from assms(5) obtain b where m: "Block_mine_block (difficulty self) ?b0 = Some b"
    and r: "r = Inr b"
    and s: "self' = self\<lparr>chain := chain self @ [b],
               mempool := filter (\<lambda>t. dumps t \<notin> dumps ` {u \<in> set (slice_to (block_capacity self) (mempool self)).
                                                           tx_from u \<noteq> ''SYSTEM''}) (mempool self)\<rparr>"
    unfolding Blockchain_mine_block_unfold[OF assms(1,2)] by (auto split: option.splits)
  have sl: "slice_to (block_capacity self) (mempool self) = take (nat (block_capacity self)) (mempool self)"
    using assms(3) by (simp add: slice_to_def)
  have f: "(\<lambda>t. dumps t \<notin> dumps ` {u \<in> set (take (nat (block_capacity self)) (mempool self)). tx_from u \<noteq> ''SYSTEM''})
         = (\<lambda>t. \<forall>u \<in> set (take (nat (block_capacity self)) (mempool self)). dumps u \<noteq> dumps t)"
    using assms(4) by (intro ext) (force simp add: image_iff)
  from mine_block_result[OF m] r s show ?thesis
    by (simp add: sl f)
qed

text \<open>
  A run: the ledger of difficulty 1 and capacity 1 admits the same transfer twice and mines
  at 00:00:54.  The loop hashes the block twice and leaves it with nonce 1.
\<close>

lemma mined_digest0:
  "calculate_hash (mined_block 0 h) = ''848837ee63dff5d02421d3aeecf7097c407555f43f6e8eeae53727411a183221''"
  by code_simp

lemma mined_digest1:
  "calculate_hash (mined_block 1 h) = ''0685c6303dfd6e3551526c0e8c9fb273ae6bb82ea954b42125f5245e6c06e8b2''"
  by code_simp

lemma mined_block_init:
  "Block_init 1 (hash create_genesis_block) [transfer, reward_to ''miner'' 50] ts_54
     = mined_block 0 ''848837ee63dff5d02421d3aeecf7097c407555f43f6e8eeae53727411a183221''"
  using mined_digest0[of "[]"] by (simp add: Block_init_def mined_block_def genesis_digest)

lemma mined_block_next:
  "next_nonce (mined_block 0 h)
     = mined_block 1 ''0685c6303dfd6e3551526c0e8c9fb273ae6bb82ea954b42125f5245e6c06e8b2''"
  using mined_digest1[of h] by (simp add: next_nonce_def mined_block_def)

lemma mined_block_mined:
  "Block_mine_block 1 (Block_init 1 (hash create_genesis_block) [transfer, reward_to ''miner'' 50] ts_54)
     = Some (mined_block 1 ''0685c6303dfd6e3551526c0e8c9fb273ae6bb82ea954b42125f5245e6c06e8b2'')"
proof -
  have sel: "\<And>n h. hash (mined_block n h) = h" by (simp add: mined_block_def)
  have "Block_mine_block 1 (mined_block 1 ''0685c6303dfd6e3551526c0e8c9fb273ae6bb82ea954b42125f5245e6c06e8b2'')
          = Some (mined_block 1 ''0685c6303dfd6e3551526c0e8c9fb273ae6bb82ea954b42125f5245e6c06e8b2'')"
    by (rule mine_block_done) (simp add: sel slice_to_def)
  then have "Block_mine_block 1 (mined_block 0 ''848837ee63dff5d02421d3aeecf7097c407555f43f6e8eeae53727411a183221'')
          = Some (mined_block 1 ''0685c6303dfd6e3551526c0e8c9fb273ae6bb82ea954b42125f5245e6c06e8b2'')"
    by (subst mine_block_step) (simp_all add: sel slice_to_def mined_block_next)
  then show ?thesis by (simp only: mined_block_init)
qed

lemma dup_ledger_fields [simp]:
  "difficulty dup_ledger = 1" "mining_reward dup_ledger = 50" "block_capacity dup_ledger = 1"
  "chain dup_ledger = [create_genesis_block]" "mempool dup_ledger = [transfer, transfer]"
  by (simp_all add: dup_ledger_def small_ledger_def Blockchain_init_def)

lemma dup_ledger_mined:
  "Blockchain_mine_block ts_54 dup_ledger ''miner''
     = Some (Inr (mined_block 1 ''0685c6303dfd6e3551526c0e8c9fb273ae6bb82ea954b42125f5245e6c06e8b2''),
             dup_ledger\<lparr>chain := [create_genesis_block,
                                    mined_block 1 ''0685c6303dfd6e3551526c0e8c9fb273ae6bb82ea954b42125f5245e6c06e8b2''],
                        mempool := []\<rparr>)"
proof -
  have t: "tx_from transfer \<noteq> ''SYSTEM''" by (simp add: transfer_def)
  have 1: "strip ''miner'' \<noteq> []" by simp
  have 2: "chain dup_ledger \<noteq> []" by simp
  show ?thesis
    unfolding Blockchain_mine_block_unfold[OF 1 2]
    using mined_block_mined t
    by (simp add: slice_to_def reward_to_def[symmetric])
qed


lemma dup_ledger_admitted:
  "add_transaction py small_ledger (request ''genesis'' ''alice'' 100)
     = (Inr (), small_ledger\<lparr>mempool := [transfer]\<rparr>)
   \<and> add_transaction py (small_ledger\<lparr>mempool := [transfer]\<rparr>) (request ''genesis'' ''alice'' 100)
     = (Inr (), dup_ledger)"
  using eps_small
  by (simp add: add_transaction_def request_def get_balance_genesis_only pending_out_def
      fsub_def fadd_def transfer_def dup_ledger_def Let_def)

text \<open>
  Against claim C6 as stated: the transfer stands twice in the mempool and once in the mined
  block, and the mempool is empty afterwards; the copy beyond the block capacity is gone too.
  The two requests are admitted whichever way the interpreter sums.
\<close>

theorem mine_block_drops_every_copy:
  "add_transaction Until311 small_ledger (request ''genesis'' ''alice'' 100)
     = (Inr (), small_ledger\<lparr>mempool := [transfer]\<rparr>)
   \<and> add_transaction Until311 (small_ledger\<lparr>mempool := [transfer]\<rparr>) (request ''genesis'' ''alice'' 100)
     = (Inr (), dup_ledger)
   \<and> add_transaction From312 small_ledger (request ''genesis'' ''alice'' 100)
     = (Inr (), small_ledger\<lparr>mempool := [transfer]\<rparr>)
   \<and> add_transaction From312 (small_ledger\<lparr>mempool := [transfer]\<rparr>) (request ''genesis'' ''alice'' 100)
     = (Inr (), dup_ledger)
   \<and> mempool dup_ledger = [transfer, transfer]
   \<and> block_capacity dup_ledger = 1
   \<and> Blockchain_mine_block ts_54 dup_ledger ''miner''
     = Some (Inr (mined_block 1 ''0685c6303dfd6e3551526c0e8c9fb273ae6bb82ea954b42125f5245e6c06e8b2''),
             dup_ledger\<lparr>chain := [create_genesis_block,
                                    mined_block 1 ''0685c6303dfd6e3551526c0e8c9fb273ae6bb82ea954b42125f5245e6c06e8b2''],
                        mempool := []\<rparr>)
   \<and> transactions (mined_block 1 ''0685c6303dfd6e3551526c0e8c9fb273ae6bb82ea954b42125f5245e6c06e8b2'')
     = [transfer, reward_to ''miner'' 50]"
  using dup_ledger_admitted dup_ledger_mined by (simp add: mined_block_def)

theorem mine_block_effect_witness:
  "take (nat (block_capacity dup_ledger)) (mempool dup_ledger) = [transfer]
   \<and> tx_from transfer \<noteq> ''SYSTEM''
   \<and> (\<exists>b. (Inr (mined_block 1 ''0685c6303dfd6e3551526c0e8c9fb273ae6bb82ea954b42125f5245e6c06e8b2'') :: error + block) = Inr b
     \<and> transactions b = [transfer, reward_to ''miner'' 50]
     \<and> length (transactions b) = 2
     \<and> index b = 1 \<and> previous_hash b = hash create_genesis_block \<and> timestamp b = ts_54
     \<and> chain (dup_ledger\<lparr>chain := [create_genesis_block, b], mempool := []\<rparr>) = [create_genesis_block, b]
     \<and> [] = filter (\<lambda>t. \<forall>u \<in> set [transfer]. dumps u \<noteq> dumps t) [transfer, transfer])"
proof -
  have 1: "strip ''miner'' \<noteq> []" by simp
  have 2: "chain dup_ledger \<noteq> []" by simp
  have 3: "0 \<le> block_capacity dup_ledger" by simp
  have 4: "\<forall>u \<in> set (take (nat (block_capacity dup_ledger)) (mempool dup_ledger)). tx_from u \<noteq> ''SYSTEM''"
    by (simp add: transfer_def)
  have 5: "tx_from transfer \<noteq> ''SYSTEM''" by (simp add: transfer_def)
  from mine_block_effect[OF 1 2 3 4 dup_ledger_mined] 5 show ?thesis
    by (simp add: reward_to_def)
qed

section \<open>The hash and the order of transactions\<close>

lemma sort_key_distinct_perm:
  assumes "mset kvs' = mset kvs" and "distinct (map fst kvs)"
  shows "sort_key fst kvs' = sort_key fst kvs"
proof (rule properties_for_sort_key)
  show "mset (sort_key fst kvs) = mset kvs'" using assms(1) by simp
  show "sorted (map fst (sort_key fst kvs))" by simp
  fix k assume "k \<in> set (sort_key fst kvs)"
  then have k: "k \<in> set kvs" by simp
  have "mset (map fst kvs') = mset (map fst kvs)"
    using assms(1) by simp
  from mset_eq_imp_distinct_iff[OF this] assms(2)
  have d': "distinct (map fst kvs')" by simp
  have one: "filter (\<lambda>x. fst k = fst x) xs = [k]" if "k \<in> set xs" "distinct (map fst xs)" for xs
    using that
  proof (induction xs)
    case Nil then show ?case by simp
  next
    case (Cons a xs)
    then show ?case by (auto simp add: image_iff filter_empty_conv)
  qed
  from k assms(1) have k': "k \<in> set kvs'" by (metis mset_eq_setD)
  show "filter (\<lambda>x. fst k = fst x) (sort_key fst kvs) = filter (\<lambda>x. fst k = fst x) kvs'"
    using one[OF k' d'] one[of "sort_key fst kvs"] k assms(2)
    by (simp add: distinct_map)
qed

lemma json_dict_perm:
  "mset kvs' = mset kvs \<Longrightarrow> distinct (map fst kvs) \<Longrightarrow> json_dict kvs' = json_dict kvs"
  using sort_key_distinct_perm[of kvs' kvs] by (simp add: json_dict_def)

lemma tx_dict_distinct: "distinct (map fst (tx_dict t))"
  by (simp add: tx_dict_def)

text \<open>
  \<^bold>\<open>Claim C8\<close> (as amended).  The serialization that \<^verbatim>\<open>calculate_hash\<close> digests is canonical
  in the keys of each transaction: whatever the order in which the items of the transaction
  dicts were inserted, the digest is the block's hash.  The transactions themselves are
  serialized in the order of the list.
\<close>

theorem hash_of_canonical_serialization:
  assumes "length ds = length (transactions b)"
      and "\<forall>i < length ds. mset (ds ! i) = mset (tx_dict (transactions b ! i))"
  shows "sha256_hex (utf8 (str_int (index b) @ previous_hash b @ isoformat (timestamp b)
                            @ json_list ds @ str_int (nonce b)))
         = calculate_hash b"
proof -
  have "json_dict (ds ! i) = json_dict (tx_dict (transactions b ! i))" if "i < length ds" for i
    using assms(2) that by (intro json_dict_perm tx_dict_distinct) simp
  then have "map json_dict ds = map json_dict (map tx_dict (transactions b))"
    using assms(1) by (simp add: list_eq_iff_nth_eq)
  then show ?thesis
    by (simp add: calculate_hash_def block_string_def json_list_def Let_def)
qed

text \<open>The genesis transaction written as \<^verbatim>\<open>{"amount": ..., "to": ..., "from": ...}\<close>.\<close>

theorem hash_of_canonical_serialization_witness:
  "sha256_hex (utf8 (str_int (index create_genesis_block) @ previous_hash create_genesis_block
        @ isoformat (timestamp create_genesis_block)
        @ json_list [[(''amount'', JFloat 5000), (''to'', JStr ''genesis''), (''from'', JStr ''SYSTEM'')]]
        @ str_int (nonce create_genesis_block)))
   = calculate_hash create_genesis_block"
proof -
  have "\<forall>i < length [[(''amount'', JFloat 5000), (''to'', JStr ''genesis''), (''from'', JStr ''SYSTEM'')]].
          mset ([[(''amount'', JFloat 5000), (''to'', JStr ''genesis''), (''from'', JStr ''SYSTEM'')]] ! i)
          = mset (tx_dict (transactions create_genesis_block ! i))"
    by (simp add: tx_dict_def reward_to_def)
  with hash_of_canonical_serialization[of
      "[[(''amount'', JFloat 5000), (''to'', JStr ''genesis''), (''from'', JStr ''SYSTEM'')]]" create_genesis_block]
  show ?thesis by simp
qed

text \<open>
  Against claim C8 as stated: the blocks \<^verbatim>\<open>Block(0, "0", [t_ab, t_ba], 2025-01-01T00:00:00Z)\<close>
  and \<^verbatim>\<open>Block(0, "0", [t_ba, t_ab], 2025-01-01T00:00:00Z)\<close> hold the same transactions in two
  orders, and their hashes differ.
\<close>

lemma plain_ab_digest:
  "calculate_hash (plain_block [t_ab, t_ba]) = ''206871f3ffe4ea712bb61c0b5e04731cdef2a2c9a71cd95918c06ca910ed748f''"
  by code_simp

lemma plain_ba_digest:
  "calculate_hash (plain_block [t_ba, t_ab]) = ''fc338358b5a070bc3ba41536b1e6ecb96dfda3a367a7db52729ca7f09a63e119''"
  by code_simp

theorem hash_depends_on_transaction_order:
  "mset (transactions (plain_block [t_ba, t_ab])) = mset (transactions (plain_block [t_ab, t_ba]))
   \<and> calculate_hash (plain_block [t_ba, t_ab]) \<noteq> calculate_hash (plain_block [t_ab, t_ba])"
  by (simp add: plain_ab_digest plain_ba_digest) (simp add: plain_block_def)

section \<open>The genesis block under validation\<close>

lemma float_sums [simp]: "fadd 0 1000000 = 1000000" "fadd 1000000 50 = 1000050" "fadd 0 5000 = 5000"
  by code_simp+

text \<open>
  \<^bold>\<open>Claim C10.\<close>  Validation does not pin the genesis block.  A two-block chain whose first
  block allocates 1000000 to \<^verbatim>\<open>mallory\<close> differs from the node's genesis block, has
  self-consistent hashes and passes \<^verbatim>\<open>is_chain_valid\<close>; being longer than the fresh ledger's
  chain, it is installed by \<^verbatim>\<open>replace_chain\<close>, after which \<^verbatim>\<open>genesis\<close> owns nothing and
  \<^verbatim>\<open>mallory\<close> owns 1000050.
\<close>

theorem genesis_not_pinned:
  "rogue_chain ! 0 \<noteq> create_genesis_block
   \<and> index (rogue_chain ! 0) = 0
   \<and> transactions (rogue_chain ! 0) = [\<lparr>tx_from = ''SYSTEM'', tx_to = ''mallory'', tx_amount = 1000000\<rparr>]
   \<and> hash (rogue_chain ! 0) = calculate_hash (rogue_chain ! 0)
   \<and> is_chain_valid fresh (Some rogue_chain)
   \<and> length (chain fresh) < length rogue_chain
   \<and> replace_chain fresh rogue_chain = (True, fresh\<lparr>chain := rogue_chain\<rparr>)
   \<and> chain fresh = [create_genesis_block]
   \<and> get_balance fresh ''genesis'' = 5000
   \<and> get_balance (fresh\<lparr>chain := rogue_chain\<rparr>) ''genesis'' = 0
   \<and> get_balance (fresh\<lparr>chain := rogue_chain\<rparr>) ''mallory'' = 1000050"
proof -
  have ne: "rogue_genesis \<noteq> create_genesis_block"
  proof
    assume "rogue_genesis = create_genesis_block"
    then have "transactions rogue_genesis = transactions create_genesis_block" by simp
    then show False by (simp add: rogue_genesis_def reward_to_def)
  qed
  have v: "is_chain_valid fresh (Some rogue_chain)"
    by (simp add: is_chain_valid_def rogue_chain_def rogue_genesis_def rogue_block_def)
  have l: "length (chain fresh) < length rogue_chain"
    by (simp add: fresh_def Blockchain_init_def rogue_chain_def)
  have b: "get_balance (fresh\<lparr>chain := rogue_chain\<rparr>) ''genesis'' = 0"
       "get_balance (fresh\<lparr>chain := rogue_chain\<rparr>) ''mallory'' = 1000050"
    by (simp_all add: get_balance_def balance_step_def reward_to_def rogue_chain_def
        rogue_genesis_def rogue_block_def Let_def)
  have c: "chain fresh = [create_genesis_block]"
    by (simp add: fresh_def Blockchain_init_def)
  have t: "transactions rogue_genesis = [\<lparr>tx_from = ''SYSTEM'', tx_to = ''mallory'', tx_amount = 1000000\<rparr>]"
    by (simp add: rogue_genesis_def reward_to_def)
  have r0: "rogue_chain ! 0 = rogue_genesis" by (simp add: rogue_chain_def)
  have h: "hash rogue_genesis = calculate_hash rogue_genesis" "index rogue_genesis = 0"
    by (simp_all add: rogue_genesis_def)
  from ne v l b c t h show ?thesis
    by (simp add: replace_chain_def get_balance_fresh r0)
qed

section \<open>Float arithmetic on integers\<close>

lemma ilog2_le:
  assumes "0 < x"
  shows "power_int 2 (ilog2 x) \<le> x"
proof -
  obtain p q where pq: "quotient_of x = (p, q)" by (cases "quotient_of x")
  then have q: "0 < q" and x: "x = of_int p / of_int q"
    by (simp_all add: quotient_of_denom_pos quotient_of_div)
  with assms have p: "0 < p" by (simp add: zero_less_divide_iff)
  define e where "e = bitlen p - bitlen q"
  show ?thesis
  proof (cases "power_int 2 e \<le> x")
    case True
    then show ?thesis by (simp add: ilog2_def pq e_def Let_def)
  next
    case False
    have bp: "2 ^ nat (bitlen p - 1) \<le> p" and bq: "q < 2 ^ nat (bitlen q)"
      using bitlen_bounds[OF p] bitlen_bounds[OF q] by simp_all
    have p1: "1 \<le> bitlen p" using p bitlen_eq_zero_iff[of p] bitlen_nonneg[of p] by linarith
    have q0: "0 \<le> bitlen q" by (rule bitlen_nonneg)
    have e1: "e - 1 = (bitlen p - 1) - bitlen q" by (simp add: e_def)
    have "power_int (2::rat) (e - 1) = power_int 2 (bitlen p - 1) / power_int 2 (bitlen q)"
      unfolding e1 by (rule power_int_diff) simp
    also have "\<dots> = of_int (2 ^ nat (bitlen p - 1)) / of_int (2 ^ nat (bitlen q))"
      using p1 q0 by (simp add: power_int_def)
    also have "\<dots> \<le> of_int p / of_int q"
    proof (rule frac_le)
      show "(0::rat) \<le> of_int p" using p by simp
      show "(of_int (2 ^ nat (bitlen p - 1)) :: rat) \<le> of_int p" using bp by (simp only: of_int_le_iff)
      show "(0::rat) < of_int q" using q by simp
      show "(of_int q :: rat) \<le> of_int (2 ^ nat (bitlen q))" using bq by (simp only: of_int_le_iff)
    qed
    finally have "power_int 2 (e - 1) \<le> x" using x by simp
    with False show ?thesis by (simp add: ilog2_def pq e_def Let_def)
  qed
qed

lemma round_half_even_near: "\<bar>of_int (round_half_even y) - y\<bar> \<le> 1 / 2"
  unfolding round_half_even_def Let_def
  by (auto simp: abs_if) linarith+

text \<open>Rounding leaves an integer of magnitude at most \<open>2\<^sup>5\<^sup>3\<close> as it is.\<close>

lemma fl_of_int:
  assumes "\<bar>n\<bar> \<le> 2 ^ 53"
  shows "fl (of_int n) = of_int n"
proof (cases "n = 0")
  case True then show ?thesis by (simp add: fl_def)
next
  case False
  define x :: rat where "x = of_int n"
  define k where "k = max (ilog2 \<bar>x\<bar>) (- 1022) - 52"
  have ax: "0 < \<bar>x\<bar>" "\<bar>x\<bar> \<le> 2 ^ 53" using False assms
    by (simp_all add: x_def flip: of_int_abs)
  have "power_int 2 (ilog2 \<bar>x\<bar>) \<le> (power_int 2 53 :: rat)"
    using ilog2_le[OF ax(1)] ax(2) by simp
  then have e: "ilog2 \<bar>x\<bar> \<le> 53"
    by (rule power_int_le_imp_le_exp[rotated]) simp_all
  have "\<exists>m. x / power_int 2 k = of_int m"
  proof (cases "k \<le> 0")
    case True
    then have "power_int (2::rat) k = 1 / 2 ^ nat (- k)"
      by (cases "k = 0") (simp_all add: power_int_def inverse_eq_divide power_divide)
    then have "x / power_int 2 k = of_int (n * 2 ^ nat (- k))" by (simp add: x_def)
    then show ?thesis by blast
  next
    case False
    with e have k1: "k = 1" and e53: "ilog2 \<bar>x\<bar> = 53" by (auto simp: k_def)
    from e53 ilog2_le[OF ax(1)] ax(2) have "\<bar>x\<bar> = 2 ^ 53" by simp
    then have "x = 2 ^ 53 \<or> x = - (2 ^ 53)" by (auto simp: abs_if split: if_splits)
    then have "x / power_int 2 k = of_int (2 ^ 52) \<or> x / power_int 2 k = of_int (- (2 ^ 52))"
      by (auto simp: k1)
    then show ?thesis by blast
  qed
  then obtain m where m: "x / power_int 2 k = of_int m" by blast
  have "fl x = of_int (round_half_even (x / power_int 2 k)) * power_int 2 k"
    using False by (simp add: fl_def x_def k_def Let_def)
  also have "\<dots> = x / power_int 2 k * power_int 2 k" by (simp add: m)
  also have "\<dots> = x" by simp
  finally show ?thesis by (simp add: x_def)
qed

lemma fl_int: "x \<in> \<int> \<Longrightarrow> \<bar>x\<bar> \<le> 2 ^ 53 \<Longrightarrow> fl x = x"
proof -
  assume "x \<in> \<int>" and b: "\<bar>x\<bar> \<le> 2 ^ 53"
  then obtain n where n: "x = of_int n" by (auto elim: Ints_cases)
  with b have "(of_int \<bar>n\<bar> :: rat) \<le> of_int (2 ^ 53)" by simp
  then have "\<bar>n\<bar> \<le> 2 ^ 53" by (simp only: of_int_le_iff)
  then show ?thesis by (simp add: n fl_of_int)
qed

section \<open>Conservation of balances\<close>

lemma get_balance_flat:
  "get_balance self a = foldl (balance_step a) 0 (all_txs (chain self))"
proof -
  have "foldl (\<lambda>balance b. foldl (balance_step a) balance (transactions b)) b0 c
        = foldl (balance_step a) b0 (all_txs c)" for b0 c
    by (induction c arbitrary: b0) (simp_all add: all_txs_def)
  then show ?thesis by (simp add: get_balance_def)
qed

lemma exact_balance_simps [simp]:
  "exact_balance a [] = 0"
  "exact_balance a (t # ts) =
     (if tx_to t = a then tx_amount t else 0)
     - (if tx_from t = a \<and> tx_from t \<noteq> ''SYSTEM'' then tx_amount t else 0) + exact_balance a ts"
  by (simp_all add: exact_balance_def)

lemma exact_balance_append [simp]:
  "exact_balance a (xs @ ys) = exact_balance a xs + exact_balance a ys"
  by (simp add: exact_balance_def)

lemma volume_simps [simp]:
  "volume [] = 0" "volume (t # ts) = \<bar>tx_amount t\<bar> + volume ts"
  "volume (xs @ ys) = volume xs + volume ys"
  by (simp_all add: volume_def)

lemma volume_nonneg: "0 \<le> volume txs"
  by (induction txs) simp_all

text \<open>
  While the absolute amounts add up to at most \<open>2\<^sup>5\<^sup>3\<close>, the float balance of integer
  amounts is the exact balance.
\<close>

lemma balance_fold_exact:
  assumes "\<forall>t \<in> set txs. tx_amount t \<in> \<int>" and "b \<in> \<int>" and "\<bar>b\<bar> + volume txs \<le> 2 ^ 53"
  shows "foldl (balance_step a) b txs = b + exact_balance a txs"
  using assms
proof (induction txs arbitrary: b)
  case Nil
  then show ?case by simp
next
  case (Cons t ts)
  let ?x = "tx_amount t"
  from Cons.prems have x: "?x \<in> \<int>" and bnd: "\<bar>b\<bar> + \<bar>?x\<bar> + volume ts \<le> 2 ^ 53" by simp_all
  note v = volume_nonneg[of ts]
  have sub: "fsub b ?x = b - ?x"
    unfolding fsub_def using x Cons.prems(2) bnd v by (intro fl_int) (auto intro: Ints_diff)
  have add1: "fadd b ?x = b + ?x"
    unfolding fadd_def using x Cons.prems(2) bnd v by (intro fl_int) (auto intro: Ints_add)
  have add2: "fadd (b - ?x) ?x = b"
    unfolding fadd_def using x Cons.prems(2) bnd v by (simp add: fl_int)
  define b' where "b' = balance_step a b t"
  have b': "b' = b + ((if tx_to t = a then ?x else 0)
                      - (if tx_from t = a \<and> tx_from t \<noteq> ''SYSTEM'' then ?x else 0))"
    by (auto simp add: b'_def balance_step_def Let_def sub add1 add2)
  have "b' \<in> \<int>" using x Cons.prems(2) by (auto simp: b')
  moreover have "\<bar>b'\<bar> + volume ts \<le> 2 ^ 53" using bnd by (auto simp: b')
  moreover have "\<forall>t \<in> set ts. tx_amount t \<in> \<int>" using Cons.prems(1) by simp
  ultimately have "foldl (balance_step a) b' ts = b' + exact_balance a ts"
    by (intro Cons.IH) 
  moreover have "foldl (balance_step a) b (t # ts) = foldl (balance_step a) b' ts"
    by (simp add: b'_def)
  ultimately show ?case by (auto simp add: b')
qed

lemma get_balance_exact:
  assumes "\<forall>t \<in> set (all_txs (chain self)). tx_amount t \<in> \<int>"
      and "volume (all_txs (chain self)) \<le> 2 ^ 53"
  shows "get_balance self a = exact_balance a (all_txs (chain self))"
  using balance_fold_exact[of "all_txs (chain self)" 0 a] assms by (simp add: get_balance_flat)

text \<open>In exact arithmetic the balances of all addresses add up to what \<^verbatim>\<open>SYSTEM\<close> issued.\<close>

lemma exact_conservation:
  assumes "finite A" and "\<forall>t \<in> set txs. tx_from t \<in> A \<and> tx_to t \<in> A"
  shows "(\<Sum>a \<in> A. exact_balance a txs) = (\<Sum>t \<leftarrow> txs. if tx_from t = ''SYSTEM'' then tx_amount t else 0)"
  using assms(2)
proof (induction txs)
  case Nil
  then show ?case by simp
next
  case (Cons t ts)
  then have f: "tx_from t \<in> A" and r: "tx_to t \<in> A" by simp_all
  have c: "(\<Sum>a \<in> A. if tx_to t = a then tx_amount t else 0) = tx_amount t"
    using assms(1) r by simp
  have d: "(\<Sum>a \<in> A. if tx_from t = a \<and> tx_from t \<noteq> ''SYSTEM'' then tx_amount t else 0)
           = (if tx_from t \<noteq> ''SYSTEM'' then tx_amount t else 0)"
  proof (cases "tx_from t = ''SYSTEM''")
    case True then show ?thesis by simp
  next
    case False
    then have "(\<Sum>a \<in> A. if tx_from t = a \<and> tx_from t \<noteq> ''SYSTEM'' then tx_amount t else 0)
               = (\<Sum>a \<in> A. if tx_from t = a then tx_amount t else 0)" by simp
    also have "\<dots> = tx_amount t" using assms(1) f by simp
    finally show ?thesis using False by simp
  qed
  from Cons show ?case
    by (simp add: sum.distrib sum_subtractf c d)
qed

text \<open>
  \<^bold>\<open>Claim C7\<close> (as amended).  For every chain in which all amounts are integers and the
  absolute amounts add up to at most \<open>2\<^sup>5\<^sup>3\<close>, the sum of \<^verbatim>\<open>get_balance(a)\<close> over all
  addresses that appear in a transaction of the chain equals the sum of the amounts of the
  transactions sent by \<^verbatim>\<open>SYSTEM\<close>.
\<close>

theorem balance_conservation_exact:
  assumes "\<forall>t \<in> set (all_txs (chain self)). tx_amount t \<in> \<int>"
      and "volume (all_txs (chain self)) \<le> 2 ^ 53"
  shows "(\<Sum>a \<in> addresses (chain self). get_balance self a) = issued (chain self)"
proof -
  have "(\<Sum>a \<in> addresses (chain self). get_balance self a)
        = (\<Sum>a \<in> addresses (chain self). exact_balance a (all_txs (chain self)))"
    using get_balance_exact[OF assms] by simp
  also have "\<dots> = issued (chain self)"
    unfolding issued_def by (rule exact_conservation) (auto simp: addresses_def)
  finally show ?thesis .
qed


lemma easy_ledger_fields [simp]:
  "difficulty easy_ledger = 0" "mining_reward easy_ledger = 50" "block_capacity easy_ledger = 100"
  "chain easy_ledger = [create_genesis_block]" "mempool easy_ledger = []"
  by (simp_all add: easy_ledger_def Blockchain_init_def)

lemma dust_arith:
  "fl (5 / 8796093022208) = 5 / 8796093022208"
  "fsub (5 / 8796093022208) eps = - (4832954499389077 / 4835703278458516698824704)"
  "fadd 0 (5 / 8796093022208) = 5 / 8796093022208"
  "fadd (5 / 8796093022208) (5 / 8796093022208) = 5 / 4398046511104"
  "fsub 5000 0 = 5000"
  "fsub 5000 (5 / 8796093022208) = 5497558138879999 / 1099511627776"
  "fsub (5497558138879999 / 1099511627776) (5 / 8796093022208) = 2748779069439999 / 549755813888"
  "fsub 5000 (5 / 4398046511104) = 5497558138879999 / 1099511627776"
  "fl (5497558138881099 / 1099511627776) = 5497558138881099 / 1099511627776"
  "fsub (5497558138881099 / 1099511627776) eps = 5497558138879999 / 1099511627776"
  "fadd 0 50 = 50"
  by code_simp+

lemma dust_in_range [simp]: "\<not> float_overflows (5 / 8796093022208)"
  by (simp add: float_overflows_def dust_arith)

text \<open>The ledger of difficulty 0 admits the two small transfers and mines them.\<close>

lemma dust_run:
  "add_transaction py easy_ledger (request ''genesis'' ''alice'' (5 / 8796093022208))
     = (Inr (), easy_ledger\<lparr>mempool := [dust]\<rparr>)"
  "add_transaction py (easy_ledger\<lparr>mempool := [dust]\<rparr>) (request ''genesis'' ''alice'' (5 / 8796093022208))
     = (Inr (), easy_ledger\<lparr>mempool := [dust, dust]\<rparr>)"
  "Blockchain_mine_block ts_1 (easy_ledger\<lparr>mempool := [dust, dust]\<rparr>) ''miner''
     = Some (Inr dust_block, easy_ledger\<lparr>chain := [create_genesis_block, dust_block], mempool := []\<rparr>)"
proof -
  show "add_transaction py easy_ledger (request ''genesis'' ''alice'' (5 / 8796093022208))
     = (Inr (), easy_ledger\<lparr>mempool := [dust]\<rparr>)"
    by (simp add: add_transaction_def request_def get_balance_genesis_only pending_out_def
        dust_arith dust_def Let_def)
  show "add_transaction py (easy_ledger\<lparr>mempool := [dust]\<rparr>) (request ''genesis'' ''alice'' (5 / 8796093022208))
     = (Inr (), easy_ledger\<lparr>mempool := [dust, dust]\<rparr>)"
    by (simp add: add_transaction_def request_def get_balance_genesis_only pending_out_def
        dust_arith dust_def Let_def)
  have 1: "strip ''miner'' \<noteq> []" by simp
  have 2: "chain (easy_ledger\<lparr>mempool := [dust, dust]\<rparr>) \<noteq> []" by simp
  have d: "tx_from dust \<noteq> ''SYSTEM''" by (simp add: dust_def)
  show "Blockchain_mine_block ts_1 (easy_ledger\<lparr>mempool := [dust, dust]\<rparr>) ''miner''
     = Some (Inr dust_block, easy_ledger\<lparr>chain := [create_genesis_block, dust_block], mempool := []\<rparr>)"
    unfolding Blockchain_mine_block_unfold[OF 1 2]
    using d by (simp add: slice_to_def mine_block_done reward_to_def[symmetric] dust_block_def[symmetric])
qed

lemma dust_balances:
  "get_balance (easy_ledger\<lparr>chain := [create_genesis_block, dust_block], mempool := []\<rparr>) a =
     (if a = ''genesis'' then 2748779069439999 / 549755813888
      else if a = ''alice'' then 5 / 4398046511104
      else if a = ''miner'' then 50 else 0)"
  by (simp add: get_balance_def balance_step_def dust_block_def dust_def reward_to_def dust_arith Let_def)

lemma dust_addresses:
  "addresses [create_genesis_block, dust_block] = {''SYSTEM'', ''genesis'', ''alice'', ''miner''}"
  by (auto simp add: addresses_def all_txs_def dust_block_def dust_def reward_to_def)

lemma dust_float_sums:
  "fadd (fadd (fadd (fadd 0 0) (2748779069439999 / 549755813888)) (5 / 4398046511104)) 50
     = 5552533720268799 / 1099511627776"
  by code_simp

lemma dust_compensated_sum:
  "py_sum From312 [0, 2748779069439999 / 549755813888, 5 / 4398046511104, 50]
     = 5552533720268799 / 1099511627776"
  by code_simp

text \<open>
  Against claim C7 as stated: after two transfers of \<open>5 \<cdot> 2\<^sup>-\<^sup>4\<^sup>3\<close> from \<^verbatim>\<open>genesis\<close> to \<^verbatim>\<open>alice\<close>
  and one mined block, \<^verbatim>\<open>SYSTEM\<close> has issued 5050, while the balances are
  \<open>5000 - 2\<^sup>-\<^sup>3\<^sup>9\<close>, \<open>5 \<cdot> 2\<^sup>-\<^sup>4\<^sup>2\<close>, 50 and 0.  They add up to \<open>5050 - 3 \<cdot> 2\<^sup>-\<^sup>4\<^sup>2\<close>; added up
  as floats they give \<open>5050 - 2\<^sup>-\<^sup>4\<^sup>0\<close>, the float \<^verbatim>\<open>5049.999999999999\<close>, whether \<^verbatim>\<open>sum\<close> adds
  from left to right or compensates; and the two transfers are admitted either way.
\<close>

theorem float_balances_drift:
  "add_transaction Until311 easy_ledger (request ''genesis'' ''alice'' (5 / 8796093022208))
     = (Inr (), easy_ledger\<lparr>mempool := [dust]\<rparr>)
   \<and> add_transaction Until311 (easy_ledger\<lparr>mempool := [dust]\<rparr>) (request ''genesis'' ''alice'' (5 / 8796093022208))
     = (Inr (), easy_ledger\<lparr>mempool := [dust, dust]\<rparr>)
   \<and> add_transaction From312 easy_ledger (request ''genesis'' ''alice'' (5 / 8796093022208))
     = (Inr (), easy_ledger\<lparr>mempool := [dust]\<rparr>)
   \<and> add_transaction From312 (easy_ledger\<lparr>mempool := [dust]\<rparr>) (request ''genesis'' ''alice'' (5 / 8796093022208))
     = (Inr (), easy_ledger\<lparr>mempool := [dust, dust]\<rparr>)
   \<and> Blockchain_mine_block ts_1 (easy_ledger\<lparr>mempool := [dust, dust]\<rparr>) ''miner''
     = Some (Inr dust_block, easy_ledger\<lparr>chain := [create_genesis_block, dust_block], mempool := []\<rparr>)
   \<and> addresses [create_genesis_block, dust_block] = {''SYSTEM'', ''genesis'', ''alice'', ''miner''}
   \<and> issued [create_genesis_block, dust_block] = 5050
   \<and> (\<Sum>a \<in> addresses [create_genesis_block, dust_block].
         get_balance (easy_ledger\<lparr>chain := [create_genesis_block, dust_block], mempool := []\<rparr>) a)
       = 5050 - 3 / 4398046511104
   \<and> py_sum Until311 (map (get_balance (easy_ledger\<lparr>chain := [create_genesis_block, dust_block], mempool := []\<rparr>))
               [''SYSTEM'', ''genesis'', ''alice'', ''miner''])
       = 5050 - 1 / 1099511627776
   \<and> py_sum From312 (map (get_balance (easy_ledger\<lparr>chain := [create_genesis_block, dust_block], mempool := []\<rparr>))
               [''SYSTEM'', ''genesis'', ''alice'', ''miner''])
       = 5050 - 1 / 1099511627776"
proof -
  have i: "issued [create_genesis_block, dust_block] = 5050"
    by (simp add: issued_def all_txs_def dust_block_def dust_def reward_to_def)
  have s: "(\<Sum>a \<in> {''SYSTEM'', ''genesis'', ''alice'', ''miner''}.
         get_balance (easy_ledger\<lparr>chain := [create_genesis_block, dust_block], mempool := []\<rparr>) a)
       = 5050 - 3 / 4398046511104"
    by (simp add: dust_balances)
  have b: "map (get_balance (easy_ledger\<lparr>chain := [create_genesis_block, dust_block], mempool := []\<rparr>))
               [''SYSTEM'', ''genesis'', ''alice'', ''miner'']
           = [0, 2748779069439999 / 549755813888, 5 / 4398046511104, 50]"
    by (simp add: dust_balances)
  have p: "py_sum py (map (get_balance (easy_ledger\<lparr>chain := [create_genesis_block, dust_block], mempool := []\<rparr>))
               [''SYSTEM'', ''genesis'', ''alice'', ''miner''])
       = 5050 - 1 / 1099511627776" for py
  proof (cases py)
    case Until311
    then show ?thesis unfolding b by (simp add: dust_float_sums)
  next
    case From312
    then show ?thesis unfolding b by (simp add: dust_compensated_sum del: py_sum.simps)
  qed
  from dust_run i s p[of Until311] p[of From312] show ?thesis
    by (simp add: dust_addresses del: py_sum.simps)
qed

text \<open>The chain with the transfer of 100 and the reward of 50: issued 5050, owned 5050.\<close>

lemma mined_chain_txs:
  "all_txs mined_chain = [reward_to ''genesis'' 5000, transfer, reward_to ''miner'' 50]"
  by (simp add: all_txs_def mined_chain_def mined_block_def)

theorem balance_conservation_exact_witness:
  "(\<Sum>a \<in> addresses (chain (dup_ledger\<lparr>chain := mined_chain, mempool := []\<rparr>)).
       get_balance (dup_ledger\<lparr>chain := mined_chain, mempool := []\<rparr>) a)
     = issued (chain (dup_ledger\<lparr>chain := mined_chain, mempool := []\<rparr>))
   \<and> issued mined_chain = 5050
   \<and> addresses mined_chain = {''SYSTEM'', ''genesis'', ''alice'', ''miner''}"
proof -
  have 1: "\<forall>t \<in> set (all_txs (chain (dup_ledger\<lparr>chain := mined_chain, mempool := []\<rparr>))). tx_amount t \<in> \<int>"
    by (simp add: mined_chain_txs reward_to_def transfer_def)
  have 2: "volume (all_txs (chain (dup_ledger\<lparr>chain := mined_chain, mempool := []\<rparr>))) \<le> 2 ^ 53"
    by (simp add: mined_chain_txs reward_to_def transfer_def)
  have 3: "issued mined_chain = 5050"
    by (simp add: issued_def mined_chain_txs reward_to_def transfer_def)
  have 4: "addresses mined_chain = {''SYSTEM'', ''genesis'', ''alice'', ''miner''}"
    by (auto simp add: addresses_def mined_chain_txs reward_to_def transfer_def)
  from balance_conservation_exact[OF 1 2] 3 4 show ?thesis by simp
qed

end
